theory Spec2Isabelle
  imports Complex_Main
begin

section \<open>Python values, failures and containers\<close>

text \<open>
  Every exception the harmonizer and its metrics can raise is a value of \<open>py_error\<close>;
  a computation that may raise returns \<open>py_error + 'a\<close>, with \<open>Inl\<close> for the exception.
  Python floats are taken as exact real numbers, Python ints as \<open>int\<close>, Python strings as
  lists of code points (all code points of this program are below 256, one \<open>char\<close> each).
\<close>

datatype py_error = IndexError | KeyError | ZeroDivisionError | ValueError

definition py_bind :: "py_error + 'a \<Rightarrow> ('a \<Rightarrow> py_error + 'b) \<Rightarrow> py_error + 'b" where
  "py_bind m f = (case m of Inl e \<Rightarrow> Inl e | Inr x \<Rightarrow> f x)"

definition raises :: "py_error + 'a \<Rightarrow> bool" where
  "raises m = (case m of Inl e \<Rightarrow> True | Inr x \<Rightarrow> False)"

text \<open>\<open>a / b\<close> on numbers: true division, \<open>ZeroDivisionError\<close> on a zero divisor.\<close>

definition py_truediv :: "real \<Rightarrow> real \<Rightarrow> py_error + real" where
  "py_truediv a b = (if b = 0 then Inl ZeroDivisionError else Inr (a / b))"

text \<open>\<open>xs[i]\<close> on a list or string: negative indices count from the end.\<close>

definition list_getitem :: "'a list \<Rightarrow> int \<Rightarrow> py_error + 'a" where
  "list_getitem xs i =
     (if 0 \<le> i \<and> i < int (length xs) then Inr (xs ! nat i)
      else if i < 0 \<and> - int (length xs) \<le> i then Inr (xs ! nat (int (length xs) + i))
      else Inl IndexError)"

text \<open>\<open>xs[i:j]\<close> for non-negative bounds.\<close>

definition list_slice :: "'a list \<Rightarrow> nat \<Rightarrow> nat \<Rightarrow> 'a list" where
  "list_slice xs i j = take (j - i) (drop i xs)"

text \<open>
  A dict is an association list in insertion order; the first binding of a key is the
  one that counts. \<open>d[k]\<close> raises \<open>KeyError\<close> on a missing key, \<open>d.get(k, v)\<close> does not.
\<close>

definition dict_getitem :: "('k \<times> 'v) list \<Rightarrow> 'k \<Rightarrow> py_error + 'v" where
  "dict_getitem d k = (case map_of d k of None \<Rightarrow> Inl KeyError | Some v \<Rightarrow> Inr v)"

definition dict_get :: "('k \<times> 'v) list \<Rightarrow> 'k \<Rightarrow> 'v \<Rightarrow> 'v" where
  "dict_get d k dflt = (case map_of d k of None \<Rightarrow> dflt | Some v \<Rightarrow> v)"

definition dict_keys :: "('k \<times> 'v) list \<Rightarrow> 'k list" where
  "dict_keys d = remdups (map fst d)"

definition dict_len :: "('k \<times> 'v) list \<Rightarrow> nat" where
  "dict_len d = length (dict_keys d)"

text \<open>A \<open>for\<close> loop whose body may raise: the first exception ends the loop.\<close>

fun for_loop :: "('s \<Rightarrow> 'i \<Rightarrow> py_error + 's) \<Rightarrow> 'i list \<Rightarrow> 's \<Rightarrow> py_error + 's" where
  "for_loop body [] s = Inr s"
| "for_loop body (i # is) s =
     (case body s i of Inl e \<Rightarrow> Inl e | Inr s' \<Rightarrow> for_loop body is s')"

text \<open>\<open>range(n)\<close> for an int \<open>n\<close>: empty when \<open>n \<le> 0\<close>.\<close>

definition py_range :: "int \<Rightarrow> nat list" where
  "py_range n = [0 ..< nat n]"


section \<open>Melody data\<close>

record MelodyData =
  melody_notes :: "(string \<times> int) list"  \<comment> \<open>the attribute \<open>notes\<close>\<close>
  duration :: int
  number_of_bars :: int

text \<open>
  \<open>MelodyData.__post_init__\<close>: the two computed attributes are set from the notes;
  \<open>//\<close> is floor division, which is \<open>div\<close> on \<open>int\<close>.
\<close>

definition MelodyData_post_init :: "(string \<times> int) list \<Rightarrow> MelodyData" where
  "MelodyData_post_init ns =
     (let d = sum_list (map snd ns)
      in \<lparr>melody_notes = ns, duration = d, number_of_bars = d div 4\<rparr>)"


section \<open>Metrics\<close>

subsection \<open>ChordMelodyCongruence\<close>

text \<open>
  The inner \<open>while\<close> loop of \<open>ChordMelodyCongruence.calculate\<close>, on the state
  \<open>(score, bar_duration, melody_index)\<close>. In \<open>pitch[0] in self.chord_mappings[chord]\<close>
  the left operand is evaluated first.
\<close>

function cmc_while ::
  "(string \<times> int) list \<Rightarrow> (string \<times> string list) list \<Rightarrow> string \<Rightarrow>
   int \<Rightarrow> int \<Rightarrow> nat \<Rightarrow> py_error + (int \<times> nat)" where
  "cmc_while ns cm chord score bar_duration melody_index =
     (if bar_duration < 4 \<and> melody_index < length ns then
        (case ns ! melody_index of (pitch, d) \<Rightarrow>
          (case list_getitem pitch 0 of Inl e \<Rightarrow> Inl e | Inr c \<Rightarrow>
            (case dict_getitem cm chord of Inl e \<Rightarrow> Inl e | Inr chord_notes \<Rightarrow>
               cmc_while ns cm chord
                 (if [c] \<in> set chord_notes then score + d else score)
                 (bar_duration + d) (melody_index + 1))))
      else Inr (score, melody_index))"
  by pat_completeness auto
termination
  by (relation "measure (\<lambda>(ns, cm, chord, score, bar_duration, melody_index).
        length ns - melody_index)") auto

definition cmc_body ::
  "(string \<times> int) list \<Rightarrow> (string \<times> string list) list \<Rightarrow>
   int \<times> nat \<Rightarrow> string \<Rightarrow> py_error + (int \<times> nat)" where
  "cmc_body ns cm st chord = cmc_while ns cm chord (fst st) 0 (snd st)"

definition ChordMelodyCongruence_calculate ::
  "MelodyData \<Rightarrow> (string \<times> string list) list \<Rightarrow> string list \<Rightarrow> py_error + real" where
  "ChordMelodyCongruence_calculate md cm chord_sequence =
     py_bind (for_loop (cmc_body (melody_notes md) cm) chord_sequence (0, 0))
       (\<lambda>st. py_truediv (real_of_int (fst st)) (real_of_int (duration md)))"

subsection \<open>ChordVariety\<close>

definition ChordVariety_calculate ::
  "(string \<times> string list) list \<Rightarrow> string list \<Rightarrow> py_error + real" where
  "ChordVariety_calculate cm chord_sequence =
     (let unique_chords = length (remdups chord_sequence);
          total_chords = dict_len cm
      in py_truediv (real unique_chords) (real total_chords))"

subsection \<open>HarmonicFlow\<close>

definition HarmonicFlow_body ::
  "(string \<times> string list) list \<Rightarrow> string list \<Rightarrow> real \<Rightarrow> real \<Rightarrow> nat \<Rightarrow> py_error + real" where
  "HarmonicFlow_body pt chord_sequence correct_transition_score score i =
     py_bind (list_getitem chord_sequence (int i + 1)) (\<lambda>next_chord.
     py_bind (list_getitem chord_sequence (int i)) (\<lambda>cur.
     py_bind (dict_getitem pt cur) (\<lambda>preferred.
       Inr (if next_chord \<in> set preferred then score + correct_transition_score else score))))"

definition HarmonicFlow_calculate ::
  "(string \<times> string list) list \<Rightarrow> string list \<Rightarrow> py_error + real" where
  "HarmonicFlow_calculate pt chord_sequence =
     (let total_transitions = int (length chord_sequence) - 1
      in py_bind (py_truediv 1 (real_of_int total_transitions)) (\<lambda>correct_transition_score.
           for_loop (HarmonicFlow_body pt chord_sequence correct_transition_score)
             (py_range total_transitions) 0))"

subsection \<open>FunctionalHarmony\<close>

definition FunctionalHarmony_calculate :: "string list \<Rightarrow> py_error + real" where
  "FunctionalHarmony_calculate chord_sequence =
     (let score0 = (0::real);
          total_rules = (3::real);
          correct_function_score = 1 / total_rules
      in py_bind (list_getitem chord_sequence 0) (\<lambda>first_chord.
           let score1 = (if first_chord \<in> set [''Cmaj7'', ''Fmaj7'']
                         then score0 + correct_function_score else score0)
           in py_bind (list_getitem chord_sequence (- 1)) (\<lambda>last_chord.
                let score2 = (if last_chord \<in> set [''Cmaj7'']
                              then score1 + correct_function_score else score1)
                in Inr (if ''Fmaj7'' \<in> set chord_sequence \<and> ''G7'' \<in> set chord_sequence
                        then score2 + correct_function_score else score2))))"

subsection \<open>VoiceLeading\<close>

definition VoiceLeading_body ::
  "(string \<times> string list) list \<Rightarrow> string list \<Rightarrow> real \<Rightarrow> real \<Rightarrow> nat \<Rightarrow> py_error + real" where
  "VoiceLeading_body cm chord_sequence shared_note_score score i =
     py_bind (list_getitem chord_sequence (int i)) (\<lambda>c1.
     py_bind (dict_getitem cm c1) (\<lambda>current_chord.
     py_bind (list_getitem chord_sequence (int i + 1)) (\<lambda>c2.
     py_bind (dict_getitem cm c2) (\<lambda>next_chord.
       Inr (foldl (\<lambda>sc note. if note \<in> set next_chord then sc + shared_note_score else sc)
              score current_chord)))))"

definition VoiceLeading_calculate ::
  "(string \<times> string list) list \<Rightarrow> string list \<Rightarrow> py_error + real" where
  "VoiceLeading_calculate cm chord_sequence =
     (let total_transitions = int (length chord_sequence) - 1;
          total_notes = 4 * total_transitions
      in py_bind (py_truediv 1 (real_of_int total_notes)) (\<lambda>shared_note_score.
           for_loop (VoiceLeading_body cm chord_sequence shared_note_score)
             (py_range total_transitions) 0))"

subsection \<open>ChordRepetitions\<close>

definition ChordRepetitions_body ::
  "string list \<Rightarrow> real \<Rightarrow> real \<Rightarrow> nat \<Rightarrow> py_error + real" where
  "ChordRepetitions_body chord_sequence same_chord_penalty score i =
     py_bind (list_getitem chord_sequence (int i)) (\<lambda>a.
     py_bind (list_getitem chord_sequence (int i + 1)) (\<lambda>b.
       let score1 = (if a = b then score + same_chord_penalty else score)
       in py_bind (list_getitem chord_sequence (int i)) (\<lambda>a'.
          py_bind (list_getitem chord_sequence (int i + 2)) (\<lambda>c.
            Inr (if a' = c then score1 + same_chord_penalty else score1)))))"

definition ChordRepetitions_calculate :: "string list \<Rightarrow> py_error + real" where
  "ChordRepetitions_calculate chord_sequence =
     (let total_transitions = int (length chord_sequence) - 2
      in py_bind (py_truediv (- 1) (real_of_int total_transitions)) (\<lambda>same_chord_penalty.
           for_loop (ChordRepetitions_body chord_sequence same_chord_penalty)
             (py_range total_transitions) 1))"

subsection \<open>FunctionalProgressions\<close>

definition FunctionalProgressions_body ::
  "string list list \<Rightarrow> string list \<Rightarrow> real \<Rightarrow> real \<Rightarrow> nat \<Rightarrow> py_error + real" where
  "FunctionalProgressions_body cp chord_sequence common_progression_score score i =
     Inr (if list_slice chord_sequence i (i + 3) \<in> set cp
          then score + common_progression_score else score)"

definition FunctionalProgressions_calculate ::
  "string list list \<Rightarrow> string list \<Rightarrow> py_error + real" where
  "FunctionalProgressions_calculate cp chord_sequence =
     (let total_transitions = int (length chord_sequence) - 2
      in py_bind (py_truediv 3 (real_of_int total_transitions)) (\<lambda>common_progression_score.
           for_loop (FunctionalProgressions_body cp chord_sequence common_progression_score)
             (py_range total_transitions) 0))"

subsection \<open>NonDiatonicChords\<close>

text \<open>
  The sixth string of the set literal in \<open>metrics.py\<close> has four code points:
  \<open>E\<close>, U+00C2, U+00BA, \<open>7\<close>.
\<close>

definition non_diatonic_chords :: "string set" where
  "non_diatonic_chords =
     {''C7'', ''D7'', ''E7'', ''A7'', ''Dm7b5'',
      [CHR ''E'', CHR 0xC2, CHR 0xBA, CHR ''7''], ''Gmin7''}"

definition NonDiatonicChords_calculate :: "string list \<Rightarrow> py_error + real" where
  "NonDiatonicChords_calculate chord_sequence =
     (let total_chords = length chord_sequence
      in py_bind (py_truediv 1 (real total_chords)) (\<lambda>non_diationic_chord_score.
           Inr (foldl (\<lambda>score chord. if chord \<in> non_diatonic_chords
                                      then score + non_diationic_chord_score else score)
                  0 chord_sequence)))"

subsection \<open>ParallelFifths\<close>

definition ParallelFifths_body ::
  "string set set \<Rightarrow> string list \<Rightarrow> real \<Rightarrow> real \<Rightarrow> nat \<Rightarrow> py_error + real" where
  "ParallelFifths_body pf chord_sequence parallel_fifth_penalty score i =
     py_bind (list_getitem chord_sequence (int i)) (\<lambda>a.
     py_bind (list_getitem chord_sequence (int i + 1)) (\<lambda>b.
       Inr (if {a, b} \<in> pf then score + parallel_fifth_penalty else score)))"

definition ParallelFifths_calculate :: "string set set \<Rightarrow> string list \<Rightarrow> py_error + real" where
  "ParallelFifths_calculate pf chord_sequence =
     (let total_transitions = int (length chord_sequence) - 1
      in py_bind (py_truediv (- 1) (real_of_int total_transitions)) (\<lambda>parallel_fifth_penalty.
           for_loop (ParallelFifths_body pf chord_sequence parallel_fifth_penalty)
             (py_range total_transitions) 1))"


section \<open>Fitness evaluator\<close>

text \<open>The nine metric classes, each instance holding what its constructor was given.\<close>

datatype Metric =
    ChordMelodyCongruence MelodyData "(string \<times> string list) list"
  | ChordVariety "(string \<times> string list) list"
  | HarmonicFlow "(string \<times> string list) list"
  | FunctionalHarmony
  | VoiceLeading "(string \<times> string list) list"
  | ChordRepetitions
  | FunctionalProgressions "string list list"
  | NonDiatonicChords
  | ParallelFifths "string set set"

fun class_name :: "Metric \<Rightarrow> string" where
  "class_name (ChordMelodyCongruence md cm) = ''ChordMelodyCongruence''"
| "class_name (ChordVariety cm) = ''ChordVariety''"
| "class_name (HarmonicFlow pt) = ''HarmonicFlow''"
| "class_name FunctionalHarmony = ''FunctionalHarmony''"
| "class_name (VoiceLeading cm) = ''VoiceLeading''"
| "class_name ChordRepetitions = ''ChordRepetitions''"
| "class_name (FunctionalProgressions cp) = ''FunctionalProgressions''"
| "class_name NonDiatonicChords = ''NonDiatonicChords''"
| "class_name (ParallelFifths pf) = ''ParallelFifths''"

fun calculate :: "Metric \<Rightarrow> string list \<Rightarrow> py_error + real" where
  "calculate (ChordMelodyCongruence md cm) cs = ChordMelodyCongruence_calculate md cm cs"
| "calculate (ChordVariety cm) cs = ChordVariety_calculate cm cs"
| "calculate (HarmonicFlow pt) cs = HarmonicFlow_calculate pt cs"
| "calculate FunctionalHarmony cs = FunctionalHarmony_calculate cs"
| "calculate (VoiceLeading cm) cs = VoiceLeading_calculate cm cs"
| "calculate ChordRepetitions cs = ChordRepetitions_calculate cs"
| "calculate (FunctionalProgressions cp) cs = FunctionalProgressions_calculate cp cs"
| "calculate NonDiatonicChords cs = NonDiatonicChords_calculate cs"
| "calculate (ParallelFifths pf) cs = ParallelFifths_calculate pf cs"

record FitnessEvaluator =
  ev_melody_data :: MelodyData  \<comment> \<open>the attribute \<open>melody_data\<close>\<close>
  chord_mappings :: "(string \<times> string list) list"
  weights :: "(string \<times> real) list"
  preferred_transitions :: "(string \<times> string list) list"
  chords_with_parallel_fifths :: "string set set"
  common_progressions :: "string list list"

definition metric_classes :: "FitnessEvaluator \<Rightarrow> Metric list" where
  "metric_classes ev =
     [ChordMelodyCongruence (ev_melody_data ev) (chord_mappings ev),
      ChordVariety (chord_mappings ev),
      HarmonicFlow (preferred_transitions ev),
      FunctionalHarmony,
      VoiceLeading (chord_mappings ev),
      ChordRepetitions,
      FunctionalProgressions (common_progressions ev),
      NonDiatonicChords,
      ParallelFifths (chords_with_parallel_fifths ev)]"

definition evaluate_body ::
  "FitnessEvaluator \<Rightarrow> string list \<Rightarrow> real \<Rightarrow> Metric \<Rightarrow> py_error + real" where
  "evaluate_body ev chord_sequence total_score metric_instance =
     (let metric_name = class_name metric_instance
      in py_bind (calculate metric_instance chord_sequence) (\<lambda>metric_score.
           let metric_weight = dict_get (weights ev) metric_name 0
           in Inr (total_score + metric_score * metric_weight)))"

definition evaluate :: "FitnessEvaluator \<Rightarrow> string list \<Rightarrow> py_error + real" where
  "evaluate ev chord_sequence =
     for_loop (evaluate_body ev chord_sequence) (metric_classes ev) 0"

text \<open>
  \<open>max(xs, key=f)\<close>: \<open>ValueError\<close> on an empty list; the key of every item is computed
  in order, and an item replaces the current best only when its key is strictly larger.
\<close>

fun max_loop ::
  "('a \<Rightarrow> py_error + real) \<Rightarrow> 'a list \<Rightarrow> 'a \<Rightarrow> real \<Rightarrow> py_error + 'a" where
  "max_loop key [] best best_key = Inr best"
| "max_loop key (x # xs) best best_key =
     (case key x of Inl e \<Rightarrow> Inl e
      | Inr k \<Rightarrow> if best_key < k then max_loop key xs x k else max_loop key xs best best_key)"

definition py_max :: "('a \<Rightarrow> py_error + real) \<Rightarrow> 'a list \<Rightarrow> py_error + 'a" where
  "py_max key xs =
     (case xs of [] \<Rightarrow> Inl ValueError
      | x # rest \<Rightarrow> py_bind (key x) (\<lambda>k. max_loop key rest x k))"

definition get_chord_sequence_with_highest_fitness ::
  "FitnessEvaluator \<Rightarrow> string list list \<Rightarrow> py_error + string list" where
  "get_chord_sequence_with_highest_fitness ev chord_sequences =
     py_max (evaluate ev) chord_sequences"


section \<open>The random module\<close>

text \<open>
  The generator is an infinite sequence of raw draws and a position in it. Each call of
  \<open>random.choice\<close>, \<open>random.randint\<close> and \<open>random.random\<close> consumes one draw and maps
  it into the range of the call, so every result the library can give is the image of
  some draw, and a statement about all generators covers every seed.
\<close>

type_synonym rng = "(nat \<Rightarrow> nat) \<times> nat"

definition rng_next :: "rng \<Rightarrow> nat \<times> rng" where
  "rng_next g = (fst g (snd g), (fst g, Suc (snd g)))"

text \<open>\<open>random.choice(xs)\<close>: \<open>IndexError\<close> on an empty sequence.\<close>

definition random_choice :: "'a list \<Rightarrow> rng \<Rightarrow> py_error + ('a \<times> rng)" where
  "random_choice xs g =
     (if xs = [] then Inl IndexError
      else (case rng_next g of (r, g') \<Rightarrow> Inr (xs ! (r mod length xs), g')))"

text \<open>\<open>random.randint(a, b)\<close>: an int in \<open>[a, b]\<close>, \<open>ValueError\<close> when the range is empty.\<close>

definition random_randint :: "int \<Rightarrow> int \<Rightarrow> rng \<Rightarrow> py_error + (int \<times> rng)" where
  "random_randint a b g =
     (if b < a then Inl ValueError
      else (case rng_next g of (r, g') \<Rightarrow> Inr (a + int r mod (b - a + 1), g')))"

text \<open>\<open>random.random()\<close>: a multiple of \<open>2 ** -53\<close> in \<open>[0, 1)\<close>.\<close>

definition random_random :: "rng \<Rightarrow> real \<times> rng" where
  "random_random g =
     (case rng_next g of (r, g') \<Rightarrow> (real_of_int (int r mod 2 ^ 53) / 2 ^ 53, g'))"

text \<open>A list comprehension of \<open>n\<close> items, each drawn with the generator.\<close>

fun repeat_collect ::
  "nat \<Rightarrow> (rng \<Rightarrow> py_error + ('a \<times> rng)) \<Rightarrow> rng \<Rightarrow> py_error + ('a list \<times> rng)" where
  "repeat_collect 0 f g = Inr ([], g)"
| "repeat_collect (Suc n) f g =
     (case f g of Inl e \<Rightarrow> Inl e
      | Inr (x, g') \<Rightarrow>
          (case repeat_collect n f g' of Inl e \<Rightarrow> Inl e
           | Inr (xs, g'') \<Rightarrow> Inr (x # xs, g'')))"

text \<open>\<open>itertools.accumulate\<close>: the running sums.\<close>

fun accumulate_from :: "real \<Rightarrow> real list \<Rightarrow> real list" where
  "accumulate_from acc [] = []"
| "accumulate_from acc (w # ws) = (acc + w) # accumulate_from (acc + w) ws"

definition accumulate :: "real list \<Rightarrow> real list" where
  "accumulate ws = (case ws of [] \<Rightarrow> [] | w # rest \<Rightarrow> w # accumulate_from w rest)"

text \<open>\<open>bisect.bisect_right(a, x, lo, hi)\<close>.\<close>

function bisect_right :: "real list \<Rightarrow> real \<Rightarrow> nat \<Rightarrow> nat \<Rightarrow> nat" where
  "bisect_right a x lo hi =
     (if lo < hi then
        (let mid = (lo + hi) div 2
         in if x < a ! mid then bisect_right a x lo mid else bisect_right a x (mid + 1) hi)
      else lo)"
  by pat_completeness auto
termination
  by (relation "measure (\<lambda>(a, x, lo, hi). hi - lo)") auto

text \<open>
  \<open>random.choices(population, weights=weights, k=k)\<close> as in CPython 3.9 and later:
  the cumulative weights are built, their number must match the population, their
  last entry (the total) is read and must be greater than zero, then each of the \<open>k\<close>
  results is \<open>population[bisect(cum_weights, random() * total, 0, n - 1)]\<close>.
\<close>

definition random_choices ::
  "'a list \<Rightarrow> real list \<Rightarrow> int \<Rightarrow> rng \<Rightarrow> py_error + ('a list \<times> rng)" where
  "random_choices population_list weight_list k g =
     (let n = length population_list;
          cum_weights = accumulate weight_list
      in if length cum_weights \<noteq> n then Inl ValueError
         else py_bind (list_getitem cum_weights (- 1)) (\<lambda>total.
                if total \<le> 0 then Inl ValueError
                else let hi = n - 1
                     in repeat_collect (nat k)
                          (\<lambda>g1. case random_random g1 of (u, g2) \<Rightarrow>
                             py_bind (list_getitem population_list
                                        (int (bisect_right cum_weights (u * total) 0 hi)))
                               (\<lambda>x. Inr (x, g2)))
                          g))"


section \<open>Genetic search\<close>

text \<open>
  The harmonizer object; \<open>population\<close> is the attribute \<open>_population\<close>, the only one
  that \<open>generate\<close> assigns.
\<close>

record GeneticMelodyHarmonizer =
  melody_data :: MelodyData
  chords :: "string list"
  mutation_rate :: real
  population_size :: int
  fitness_evaluator :: FitnessEvaluator
  population :: "string list list"

definition GeneticMelodyHarmonizer_init ::
  "MelodyData \<Rightarrow> string list \<Rightarrow> int \<Rightarrow> real \<Rightarrow> FitnessEvaluator \<Rightarrow> GeneticMelodyHarmonizer" where
  "GeneticMelodyHarmonizer_init md cs psize mrate ev =
     \<lparr>melody_data = md, chords = cs, mutation_rate = mrate, population_size = psize,
      fitness_evaluator = ev, population = []\<rparr>"

definition generate_random_chord_sequence ::
  "GeneticMelodyHarmonizer \<Rightarrow> rng \<Rightarrow> py_error + (string list \<times> rng)" where
  "generate_random_chord_sequence h g =
     repeat_collect (nat (2 * number_of_bars (melody_data h))) (random_choice (chords h)) g"

definition initialise_population ::
  "GeneticMelodyHarmonizer \<Rightarrow> rng \<Rightarrow> py_error + (string list list \<times> rng)" where
  "initialise_population h g =
     repeat_collect (nat (population_size h)) (generate_random_chord_sequence h) g"

text \<open>The comprehension \<open>[f(x) for x in xs]\<close> for an \<open>f\<close> that may raise.\<close>

fun map_result :: "('a \<Rightarrow> py_error + 'b) \<Rightarrow> 'a list \<Rightarrow> py_error + 'b list" where
  "map_result f [] = Inr []"
| "map_result f (x # xs) =
     (case f x of Inl e \<Rightarrow> Inl e
      | Inr y \<Rightarrow> (case map_result f xs of Inl e \<Rightarrow> Inl e | Inr ys \<Rightarrow> Inr (y # ys)))"

definition select_parents ::
  "GeneticMelodyHarmonizer \<Rightarrow> rng \<Rightarrow> py_error + (string list list \<times> rng)" where
  "select_parents h g =
     py_bind (map_result (evaluate (fitness_evaluator h)) (population h)) (\<lambda>fitness_values.
       random_choices (population h) fitness_values (population_size h) g)"

definition crossover ::
  "string list \<Rightarrow> string list \<Rightarrow> rng \<Rightarrow> py_error + (string list \<times> rng)" where
  "crossover parent1 parent2 g =
     py_bind (random_randint 1 (int (length parent1) - 1) g) (\<lambda>(cut_index, g').
       Inr (take (nat cut_index) parent1 @ drop (nat cut_index) parent2, g'))"

text \<open>\<open>xs[i] = v\<close> for a non-negative index.\<close>

definition list_setitem :: "'a list \<Rightarrow> int \<Rightarrow> 'a \<Rightarrow> py_error + 'a list" where
  "list_setitem xs i v =
     (if 0 \<le> i \<and> i < int (length xs) then Inr (xs[nat i := v]) else Inl IndexError)"

text \<open>
  In \<open>chord_sequence[mutation_index] = random.choice(self.chords)\<close> the right-hand side
  is evaluated before the store.
\<close>

definition mutate ::
  "GeneticMelodyHarmonizer \<Rightarrow> string list \<Rightarrow> rng \<Rightarrow> py_error + (string list \<times> rng)" where
  "mutate h chord_sequence g =
     (case random_random g of (u, g1) \<Rightarrow>
        if u < mutation_rate h then
          py_bind (random_randint 0 (int (length chord_sequence) - 1) g1) (\<lambda>(mutation_index, g2).
          py_bind (random_choice (chords h) g2) (\<lambda>(c, g3).
          py_bind (list_setitem chord_sequence mutation_index c) (\<lambda>chord_sequence'.
            Inr (chord_sequence', g3))))
        else Inr (chord_sequence, g1))"

text \<open>\<open>range(0, n, 2)\<close>.\<close>

definition py_range_step2 :: "int \<Rightarrow> nat list" where
  "py_range_step2 n = map (\<lambda>j. 2 * j) [0 ..< nat ((n + 1) div 2)]"

definition create_new_population_body ::
  "GeneticMelodyHarmonizer \<Rightarrow> string list list \<Rightarrow> string list list \<times> rng \<Rightarrow> nat \<Rightarrow>
   py_error + (string list list \<times> rng)" where
  "create_new_population_body h parents st i =
     (case st of (new_population, g) \<Rightarrow>
        py_bind (list_getitem parents (int i)) (\<lambda>p1.
        py_bind (list_getitem parents (int i + 1)) (\<lambda>p2.
        py_bind (crossover p1 p2 g) (\<lambda>(child1, g1).
        py_bind (list_getitem parents (int i + 1)) (\<lambda>q1.
        py_bind (list_getitem parents (int i)) (\<lambda>q2.
        py_bind (crossover q1 q2 g1) (\<lambda>(child2, g2).
        py_bind (mutate h child1 g2) (\<lambda>(child1', g3).
        py_bind (mutate h child2 g3) (\<lambda>(child2', g4).
          Inr (new_population @ [child1', child2'], g4))))))))))"

definition create_new_population ::
  "GeneticMelodyHarmonizer \<Rightarrow> string list list \<Rightarrow> rng \<Rightarrow>
   py_error + (string list list \<times> rng)" where
  "create_new_population h parents g =
     for_loop (create_new_population_body h parents)
       (py_range_step2 (population_size h)) ([], g)"

text \<open>One pass of the loop of \<open>generate\<close>.\<close>

definition generation_step ::
  "GeneticMelodyHarmonizer \<times> rng \<Rightarrow> nat \<Rightarrow> py_error + (GeneticMelodyHarmonizer \<times> rng)" where
  "generation_step st i =
     (case st of (h, g) \<Rightarrow>
        py_bind (select_parents h g) (\<lambda>(parents, g1).
        py_bind (create_new_population h parents g1) (\<lambda>(new_population, g2).
          Inr (h\<lparr>population := new_population\<rparr>, g2))))"

definition generate ::
  "GeneticMelodyHarmonizer \<Rightarrow> int \<Rightarrow> rng \<Rightarrow> py_error + string list" where
  "generate h generations g =
     py_bind (initialise_population h g) (\<lambda>(pop, g1).
     py_bind (for_loop generation_step (py_range generations) (h\<lparr>population := pop\<rparr>, g1))
       (\<lambda>(h', g2).
          get_chord_sequence_with_highest_fitness (fitness_evaluator h') (population h')))"


section \<open>Reference formula and example data\<close>

text \<open>
  The Chord Repetitions score as the specification words it when every adjacent pair,
  the last one included, is counted: one penalty of \<open>1 / (length - 2)\<close> for each
  \<open>i\<close> with \<open>chord[i] = chord[i+1]\<close> and one for each \<open>i\<close> with \<open>chord[i] = chord[i+2]\<close>.
\<close>

definition ChordRepetitions_all_pairs :: "string list \<Rightarrow> real" where
  "ChordRepetitions_all_pairs cs =
     1 - (real (length (filter (\<lambda>i. cs ! i = cs ! (i + 1)) [0 ..< length cs - 1]))
        + real (length (filter (\<lambda>i. cs ! i = cs ! (i + 2)) [0 ..< length cs - 2])))
       / real (length cs - 2)"

text \<open>The call \<open>MelodyData(notes)\<close>: the generated constructor stores the notes and runs
  \<open>__post_init__\<close>; nothing in it raises.\<close>

definition MelodyData_new :: "(string \<times> int) list \<Rightarrow> py_error + MelodyData" where
  "MelodyData_new ns = Inr (MelodyData_post_init ns)"

text \<open>The diminished chord name of \<open>main\<close>: \<open>E\<close>, U+00BA, \<open>7\<close>.\<close>

definition E_dim7 :: string where
  "E_dim7 = [CHR ''E'', CHR 0xBA, CHR ''7'']"

text \<open>\<open>chord_mappings\<close> and \<open>weights\<close> of \<open>main\<close>.\<close>

definition main_chord_mappings :: "(string \<times> string list) list" where
  "main_chord_mappings =
     [(''Cmaj7'', [''C'', ''E'', ''G'', ''B'']),
      (''Dm7'', [''D'', ''F'', ''A'', ''C'']),
      (''Em7'', [''E'', ''G'', ''B'', ''D'']),
      (''Fmaj7'', [''F'', ''A'', ''C'', ''E'']),
      (''G7'', [''G'', ''B'', ''D'', ''F'']),
      (''Am7'', [''A'', ''C'', ''E'', ''G'']),
      (''Bm7b5'', [''B'', ''D'', ''F'', ''A'']),
      (''C7'', [''C'', ''E'', ''G'', ''Bb'']),
      (''D7'', [''D'', ''F#'', ''A'', ''C'']),
      (''E7'', [''E'', ''G#'', ''B'', ''D'']),
      (''A7'', [''A'', ''C#'', ''E'', ''G'']),
      (''Dm7b5'', [''D'', ''F'', ''Ab'', ''C'']),
      (E_dim7, [''E'', ''G'', ''Bb'', ''Db'']),
      (''Gmin7'', [''G'', ''Bb'', ''D'', ''F''])]"

definition main_weights :: "(string \<times> real) list" where
  "main_weights =
     [(''ChordMelodyCongruence'', 24 / 100),
      (''ChordVariety'', 8 / 100),
      (''HarmonicFlow'', 18 / 100),
      (''FunctionalHarmony'', 10 / 100),
      (''VoiceLeading'', 2 / 100),
      (''ChordRepetitions'', 6 / 100),
      (''NonDiatonicChords'', 6 / 100),
      (''FunctionalProgressions'', 25 / 100),
      (''ParallelFifths'', 1 / 100)]"

text \<open>
  A small configuration: the first bar and the first two bars of the melody of \<open>main\<close>,
  and the data of \<open>main\<close> restricted to the chords \<open>Cmaj7\<close> and \<open>G7\<close> (no parallel-fifth
  pair and no common progression of \<open>main\<close> lies within these two chords).
\<close>

definition one_bar :: MelodyData where
  "one_bar = MelodyData_post_init [(''C5'', 1), (''C5'', 1), (''G5'', 1), (''G5'', 1)]"

definition two_bars :: MelodyData where
  "two_bars = MelodyData_post_init
     [(''C5'', 1), (''C5'', 1), (''G5'', 1), (''G5'', 1), (''A5'', 1), (''A5'', 1), (''G5'', 2)]"

definition two_chords :: "(string \<times> string list) list" where
  "two_chords = [(''Cmaj7'', [''C'', ''E'', ''G'', ''B'']), (''G7'', [''G'', ''B'', ''D'', ''F''])]"

definition two_chord_transitions :: "(string \<times> string list) list" where
  "two_chord_transitions =
     [(''Cmaj7'', [''Em7'', ''Fmaj7'', ''Am7'', ''C7'', ''E7'', ''A7'', E_dim7]),
      (''G7'', [''Cmaj7'', ''Am7'', ''Em7''])]"

definition example_evaluator :: "MelodyData \<Rightarrow> (string \<times> real) list \<Rightarrow> FitnessEvaluator" where
  "example_evaluator md w =
     \<lparr>ev_melody_data = md, chord_mappings = two_chords, weights = w,
      preferred_transitions = two_chord_transitions,
      chords_with_parallel_fifths = {}, common_progressions = []\<rparr>"

definition example_harmonizer ::
  "MelodyData \<Rightarrow> int \<Rightarrow> (string \<times> real) list \<Rightarrow> GeneticMelodyHarmonizer" where
  "example_harmonizer md n w =
     GeneticMelodyHarmonizer_init md (dict_keys two_chords) n (5 / 100) (example_evaluator md w)"

text \<open>The generator whose every raw draw is \<open>0\<close>, after \<open>k\<close> draws.\<close>

definition rng0 :: "nat \<Rightarrow> rng" where
  "rng0 k = (\<lambda>n. 0, k)"

definition Cmaj7_2 :: "string list" where
  "Cmaj7_2 = [''Cmaj7'', ''Cmaj7'']"

definition Cmaj7_4 :: "string list" where
  "Cmaj7_4 = [''Cmaj7'', ''Cmaj7'', ''Cmaj7'', ''Cmaj7'']"


section \<open>Basic facts\<close>

declare cmc_while.simps [simp del] bisect_right.simps [simp del]

lemma py_bind_simps [simp]:
  "py_bind (Inl e) f = Inl e" "py_bind (Inr x) f = f x"
  by (simp_all add: py_bind_def)

lemma py_bind_eq_Inr:
  "py_bind m f = Inr y \<longleftrightarrow> (\<exists>x. m = Inr x \<and> f x = Inr y)"
  by (cases m) simp_all

lemma raises_simps [simp]: "raises (Inl e)" "\<not> raises (Inr x)"
  by (simp_all add: raises_def)

lemma raises_py_bind: "raises m \<Longrightarrow> raises (py_bind m f)"
  by (cases m) simp_all

lemma not_raises_iff: "\<not> raises m \<longleftrightarrow> (\<exists>x. m = Inr x)"
  by (cases m) simp_all

lemma list_getitem_nat [simp]:
  "i < length xs \<Longrightarrow> list_getitem xs (int i) = Inr (xs ! i)"
  by (simp add: list_getitem_def)

lemma list_getitem_Suc:
  "Suc i < length xs \<Longrightarrow> list_getitem xs (int i + 1) = Inr (xs ! Suc i)"
  using list_getitem_nat [of "Suc i" xs] by (simp add: add.commute)

lemma list_getitem_Suc_Suc:
  "Suc (Suc i) < length xs \<Longrightarrow> list_getitem xs (int i + 2) = Inr (xs ! Suc (Suc i))"
  using list_getitem_nat [of "Suc (Suc i)" xs] by (simp add: add.commute)

lemma list_getitem_out:
  "length xs \<le> i \<Longrightarrow> list_getitem xs (int i) = Inl IndexError"
  by (simp add: list_getitem_def)

lemma list_getitem_mem: "list_getitem xs i = Inr x \<Longrightarrow> x \<in> set xs"
  by (auto simp: list_getitem_def split: if_splits)

lemma for_loop_append:
  "for_loop body (xs @ ys) s = py_bind (for_loop body xs s) (for_loop body ys)"
  by (induction xs arbitrary: s) (auto split: sum.splits)

lemma for_loop_pure:
  "(\<And>i s. i \<in> set xs \<Longrightarrow> body s i = Inr (f s i)) \<Longrightarrow> for_loop body xs s = Inr (foldl f s xs)"
  by (induction xs arbitrary: s) auto


lemma for_loop_total:
  assumes "P s"
    and "\<And>i a. i \<in> set xs \<Longrightarrow> P a \<Longrightarrow> \<exists>b. body a i = Inr b \<and> P b"
  shows "\<exists>t. for_loop body xs s = Inr t \<and> P t"
  using assms
proof (induction xs arbitrary: s)
  case Nil
  then show ?case by simp
next
  case (Cons i xs)
  from Cons.prems(2) [of i s] Cons.prems(1)
  obtain s' where b: "body s i = Inr s'" and p: "P s'" by auto
  have "\<exists>t. for_loop body xs s' = Inr t \<and> P t"
    using Cons.IH [OF p] Cons.prems(2) by simp
  then show ?case using b by simp
qed

lemma for_loop_raises_first:
  "raises (body s i) \<Longrightarrow> raises (for_loop body (i # xs) s)"
  by (cases "body s i") simp_all

lemma for_loop_raises_at:
  assumes "\<And>a. raises (body a m)"
  shows "raises (for_loop body (xs @ m # ys) s)"
proof (induction xs arbitrary: s)
  case Nil
  show ?case using assms [of s] by (cases "body s m") simp_all
next
  case (Cons i xs)
  show ?case using Cons.IH by (cases "body s i") simp_all
qed

lemma repeat_collect_Inr:
  assumes "repeat_collect n f g = Inr (xs, g')"
    and "\<And>a x b. f a = Inr (x, b) \<Longrightarrow> P x"
  shows "length xs = n \<and> (\<forall>x\<in>set xs. P x)"
  using assms(1)
proof (induction n arbitrary: g xs)
  case 0
  then show ?case by simp
next
  case (Suc n)
  from Suc.prems obtain x g1 ys where fx: "f g = Inr (x, g1)"
    and r: "repeat_collect n f g1 = Inr (ys, g')" and xs: "xs = x # ys"
    by (auto split: sum.splits prod.splits)
  show ?case using Suc.IH [OF r] assms(2) [OF fx] xs by simp
qed

lemma repeat_collect_total:
  assumes "\<And>a. \<exists>x b. f a = Inr (x, b)"
  shows "\<exists>xs g'. repeat_collect n f g = Inr (xs, g')"
proof (induction n arbitrary: g)
  case 0
  show ?case by simp
next
  case (Suc n)
  from assms [of g] obtain x g1 where fx: "f g = Inr (x, g1)" by auto
  from Suc [of g1] obtain ys g2 where "repeat_collect n f g1 = Inr (ys, g2)" by auto
  then show ?case using fx by simp
qed

lemma repeat_collect_raises:
  "0 < n \<Longrightarrow> raises (f g) \<Longrightarrow> raises (repeat_collect n f g)"
  by (cases n; cases "f g") simp_all

lemma random_choice_Inr:
  "xs \<noteq> [] \<Longrightarrow> \<exists>x g'. random_choice xs g = Inr (x, g') \<and> x \<in> set xs"
  by (simp add: random_choice_def split: prod.splits)

lemma random_choice_empty: "random_choice [] g = Inl IndexError"
  by (simp add: random_choice_def)

lemma random_randint_Inr:
  "a \<le> b \<Longrightarrow> \<exists>r g'. random_randint a b g = Inr (r, g') \<and> a \<le> r \<and> r \<le> b"
proof -
  assume ab: "a \<le> b"
  obtain r g' where n: "rng_next g = (r, g')" by (cases "rng_next g")
  have lo: "0 \<le> int r mod (b - a + 1)" using ab by simp
  have "int r mod (b - a + 1) < b - a + 1" using ab by (intro pos_mod_bound) simp
  then have hi: "a + int r mod (b - a + 1) \<le> b" by linarith
  show ?thesis using ab n lo hi by (simp add: random_randint_def)
qed

lemma random_randint_empty: "b < a \<Longrightarrow> random_randint a b g = Inl ValueError"
  by (simp add: random_randint_def)

lemma crossover_total:
  assumes "2 \<le> length p1"
  shows "\<exists>c g'. crossover p1 p2 g = Inr (c, g')
           \<and> (length p2 = length p1 \<longrightarrow> length c = length p1)
           \<and> set c \<subseteq> set p1 \<union> set p2"
proof -
  from assms have "(1::int) \<le> int (length p1) - 1" by simp
  from random_randint_Inr [OF this, of g]
  obtain r g' where rr: "random_randint 1 (int (length p1) - 1) g = Inr (r, g')"
    and lo: "1 \<le> r" and hi: "r \<le> int (length p1) - 1" by auto
  let ?c = "take (nat r) p1 @ drop (nat r) p2"
  have c: "crossover p1 p2 g = Inr (?c, g')" by (simp add: crossover_def rr)
  have l: "length p2 = length p1 \<longrightarrow> length ?c = length p1" using lo hi by auto
  have s: "set ?c \<subseteq> set p1 \<union> set p2"
    using set_take_subset [of "nat r" p1] set_drop_subset [of "nat r" p2] by auto
  show ?thesis using c l s by blast
qed

lemma crossover_short: "length p1 < 2 \<Longrightarrow> crossover p1 p2 g = Inl ValueError"
  by (simp add: crossover_def random_randint_def)

lemma mutate_Inr_length:
  assumes "mutate h cs g = Inr (c, g')"
  shows "length c = length cs"
  using assms
  by (auto simp: mutate_def list_setitem_def py_bind_eq_Inr split: prod.splits if_splits)

lemma mutate_total:
  assumes "chords h \<noteq> []" and "cs \<noteq> []"
  shows "\<exists>c g'. mutate h cs g = Inr (c, g') \<and> length c = length cs
           \<and> set c \<subseteq> set cs \<union> set (chords h)"
proof -
  obtain u g1 where u: "random_random g = (u, g1)" by (cases "random_random g")
  show ?thesis
  proof (cases "u < mutation_rate h")
    case False
    then show ?thesis using u by (simp add: mutate_def)
  next
    case True
    from assms(2) have "(0::int) \<le> int (length cs) - 1" by (cases cs) simp_all
    from random_randint_Inr [OF this, of g1]
    obtain r g2 where rr: "random_randint 0 (int (length cs) - 1) g1 = Inr (r, g2)"
      and lo: "0 \<le> r" and hi: "r \<le> int (length cs) - 1" by auto
    from random_choice_Inr [OF assms(1), of g2]
    obtain x g3 where rc: "random_choice (chords h) g2 = Inr (x, g3)" and x: "x \<in> set (chords h)"
      by auto
    have m: "mutate h cs g = Inr (cs[nat r := x], g3)"
      using u True rr rc lo hi by (simp add: mutate_def list_setitem_def)
    have "set (cs[nat r := x]) \<subseteq> insert x (set cs)" by (rule set_update_subset_insert)
    then show ?thesis using m x by auto
  qed
qed


section \<open>Melody construction (C6)\<close>

text \<open>
  Claim C6, as stated: constructing a \<open>MelodyData\<close> from an empty note list, or from a
  note of non-positive duration, fails at construction. The constructor has no check:
  the empty list gives a melody of duration 0 and 0 bars, and a note of duration \<open>-4\<close>
  gives duration \<open>-4\<close> and \<open>-1\<close> bars.
\<close>

theorem MelodyData_malformed_constructs:
  "MelodyData_new [] = Inr \<lparr>melody_notes = [], duration = 0, number_of_bars = 0\<rparr>
   \<and> MelodyData_new [(''C5'', - 4)]
       = Inr \<lparr>melody_notes = [(''C5'', - 4)], duration = - 4, number_of_bars = - 1\<rparr>"
  by (simp add: MelodyData_new_def MelodyData_post_init_def)

text \<open>
  Claim C6, amended: construction succeeds for every note list, malformed or not, with
  duration the sum of the note durations and number of bars the duration floor-divided
  by 4, so that \<open>4 * bars \<le> duration < 4 * bars + 4\<close>.
\<close>

theorem MelodyData_always_constructs:
  "\<exists>m. MelodyData_new ns = Inr m
      \<and> melody_notes m = ns
      \<and> duration m = sum_list (map snd ns)
      \<and> number_of_bars m = duration m div 4
      \<and> 4 * number_of_bars m \<le> duration m
      \<and> duration m < 4 * number_of_bars m + 4"
proof -
  let ?d = "sum_list (map snd ns)"
  have "?d = 4 * (?d div 4) + ?d mod 4" by simp
  moreover have "0 \<le> ?d mod 4" "?d mod 4 < 4" by simp_all
  ultimately have "4 * (?d div 4) \<le> ?d" "?d < 4 * (?d div 4) + 4" by linarith+
  then show ?thesis
    by (simp add: MelodyData_new_def MelodyData_post_init_def Let_def)
qed

section \<open>Chord repetitions (C5)\<close>

lemma foldl_add_weight:
  "foldl (\<lambda>s i. s + p * w i) s xs = s + p * sum_list (map w xs)"
  for p :: real
  by (induction xs arbitrary: s) (auto simp: algebra_simps)

lemma sum_list_of_bool_filter:
  "sum_list (map (\<lambda>i. of_bool (P i) :: real) xs) = real (length (filter P xs))"
  by (induction xs) auto

lemma ChordRepetitions_body_in_range:
  assumes "Suc (Suc i) < length cs"
  shows "ChordRepetitions_body cs p s i =
         Inr (s + p * (of_bool (cs ! i = cs ! (i + 1)) + of_bool (cs ! i = cs ! (i + 2))))"
proof -
  have a: "list_getitem cs (int i) = Inr (cs ! i)" using assms by simp
  have b: "list_getitem cs (int i + 1) = Inr (cs ! Suc i)"
    using assms by (simp add: list_getitem_Suc)
  have c: "list_getitem cs (int i + 2) = Inr (cs ! Suc (Suc i))"
    using assms by (simp add: list_getitem_Suc_Suc)
  show ?thesis
    unfolding ChordRepetitions_body_def a b c py_bind_simps Let_def
    by (simp add: algebra_simps)
qed

lemma ChordRepetitions_loop:
  assumes "n + 2 \<le> length cs"
  shows "for_loop (ChordRepetitions_body cs p) [0 ..< n] s =
         Inr (s + p * (real (length (filter (\<lambda>i. cs ! i = cs ! (i + 1)) [0 ..< n]))
                     + real (length (filter (\<lambda>i. cs ! i = cs ! (i + 2)) [0 ..< n]))))"
proof -
  have "for_loop (ChordRepetitions_body cs p) [0 ..< n] s =
        Inr (foldl (\<lambda>s i. s + p * (of_bool (cs ! i = cs ! (i + 1)) + of_bool (cs ! i = cs ! (i + 2)))) s [0 ..< n])"
    by (rule for_loop_pure) (use assms in \<open>simp add: ChordRepetitions_body_in_range\<close>)
  then show ?thesis
    by (simp add: foldl_add_weight sum_list_addf sum_list_of_bool_filter)
qed

lemma ChordRepetitions_windows:
  assumes "3 \<le> length cs"
  shows "ChordRepetitions_calculate cs =
         Inr (1 - (real (length (filter (\<lambda>i. cs ! i = cs ! (i + 1)) [0 ..< length cs - 2]))
                 + real (length (filter (\<lambda>i. cs ! i = cs ! (i + 2)) [0 ..< length cs - 2])))
                  / real (length cs - 2))"
proof -
  have n: "nat (int (length cs) - 2) = length cs - 2" by simp
  have nz: "real_of_int (int (length cs) - 2) \<noteq> 0" using assms by simp
  have r: "real_of_int (int (length cs) - 2) = real (length cs - 2)" using assms by simp
  show ?thesis
    unfolding ChordRepetitions_calculate_def Let_def py_range_def n
    using nz assms
    by (simp add: py_truediv_def ChordRepetitions_loop r divide_inverse algebra_simps)
qed

text \<open>
  Claim C5 counts every adjacent pair, the last one (positions \<open>length - 2\<close> and
  \<open>length - 1\<close>) included, as the class documents (it penalizes sequences with repeated
  chords) and as \<open>HarmonicFlow\<close> and \<open>ParallelFifths\<close> do over their \<open>length - 1\<close>
  transitions. The loop of \<open>ChordRepetitions.calculate\<close> runs both tests over
  \<open>range(length - 2)\<close>, the bound that only the \<open>i + 2\<close> test needs, so the last
  adjacent pair is never compared. On \<open>[Cmaj7, G7, G7]\<close> that pair is the only repeat:
  the formula of the claim gives 0 and the code returns 1, the score of a sequence
  without any repeat. On \<open>[Cmaj7, Em7, G7, G7]\<close>, of the length the search produces for
  a melody of two bars, the claim gives \<open>1 / 2\<close> and the code returns 1.
\<close>

theorem ChordRepetitions_last_pair_not_counted:
  "ChordRepetitions_calculate [''Cmaj7'', ''G7'', ''G7''] = Inr 1
   \<and> ChordRepetitions_all_pairs [''Cmaj7'', ''G7'', ''G7''] = 0
   \<and> ChordRepetitions_calculate [''Cmaj7'', ''Em7'', ''G7'', ''G7''] = Inr 1
   \<and> ChordRepetitions_all_pairs [''Cmaj7'', ''Em7'', ''G7'', ''G7''] = 1 / 2"
proof (intro conjI)
  show "ChordRepetitions_calculate [''Cmaj7'', ''G7'', ''G7''] = Inr 1"
    using ChordRepetitions_windows [of "[''Cmaj7'', ''G7'', ''G7'']"] by (simp add: upt_rec)
  show "ChordRepetitions_all_pairs [''Cmaj7'', ''G7'', ''G7''] = 0"
    by (simp add: ChordRepetitions_all_pairs_def upt_rec)
  show "ChordRepetitions_calculate [''Cmaj7'', ''Em7'', ''G7'', ''G7''] = Inr 1"
    using ChordRepetitions_windows [of "[''Cmaj7'', ''Em7'', ''G7'', ''G7'']"]
    by (simp add: upt_rec)
  show "ChordRepetitions_all_pairs [''Cmaj7'', ''Em7'', ''G7'', ''G7''] = 1 / 2"
    by (simp add: ChordRepetitions_all_pairs_def upt_rec)
qed


section \<open>Non-diatonic chords (C10)\<close>

lemma NonDiatonicChords_foldl:
  "foldl (\<lambda>score chord. if chord \<in> S then score + p else score) s cs
     = s + p * real (length (filter (\<lambda>c. c \<in> S) cs))"
  for p :: real
  by (induction cs arbitrary: s) (auto simp: algebra_simps)

lemma NonDiatonicChords_count:
  "NonDiatonicChords_calculate cs =
     (if cs = [] then Inl ZeroDivisionError
      else Inr (real (length (filter (\<lambda>c. c \<in> non_diatonic_chords) cs)) / real (length cs)))"
  by (simp add: NonDiatonicChords_calculate_def py_truediv_def NonDiatonicChords_foldl)

lemma main_keys:
  "dict_keys main_chord_mappings =
     [''Cmaj7'', ''Dm7'', ''Em7'', ''Fmaj7'', ''G7'', ''Am7'', ''Bm7b5'', ''C7'', ''D7'', ''E7'',
      ''A7'', ''Dm7b5'', E_dim7, ''Gmin7'']"
  by (simp add: dict_keys_def main_chord_mappings_def E_dim7_def)

lemma main_non_diatonic_all:
  "\<forall>c\<in>set (dict_keys main_chord_mappings).
     (c \<in> non_diatonic_chords) = (c \<in> {''C7'', ''D7'', ''E7'', ''A7'', ''Dm7b5'', ''Gmin7''})"
  by (simp add: dict_keys_def main_chord_mappings_def non_diatonic_chords_def E_dim7_def)

lemma main_non_diatonic:
  assumes "c \<in> set (dict_keys main_chord_mappings)"
  shows "c \<in> non_diatonic_chords \<longleftrightarrow> c \<in> {''C7'', ''D7'', ''E7'', ''A7'', ''Dm7b5'', ''Gmin7''}"
  using main_non_diatonic_all assms by (rule bspec)

text \<open>
  Claim C10: on a chord sequence drawn from the chord vocabulary of \<open>main\<close>, the metric
  counts exactly the occurrences of \<open>C7\<close>, \<open>D7\<close>, \<open>E7\<close>, \<open>A7\<close>, \<open>Dm7b5\<close> and \<open>Gmin7\<close>, each
  worth \<open>1 / length\<close> (an empty sequence divides by zero); the vocabulary's diminished
  chord is not in the metric's set, whose sixth string has an extra code point.
\<close>

theorem NonDiatonicChords_main_vocabulary:
  assumes "set cs \<subseteq> set (dict_keys main_chord_mappings)"
  shows "NonDiatonicChords_calculate cs =
           (if cs = [] then Inl ZeroDivisionError
            else Inr (real (length (filter
                   (\<lambda>c. c \<in> {''C7'', ''D7'', ''E7'', ''A7'', ''Dm7b5'', ''Gmin7''}) cs))
                 / real (length cs)))
         \<and> E_dim7 \<in> set (dict_keys main_chord_mappings)
         \<and> E_dim7 \<notin> non_diatonic_chords
         \<and> [CHR ''E'', CHR 0xC2, CHR 0xBA, CHR ''7''] \<in> non_diatonic_chords
         \<and> [CHR ''E'', CHR 0xC2, CHR 0xBA, CHR ''7''] \<notin> set (dict_keys main_chord_mappings)"
proof -
  have "filter (\<lambda>c. c \<in> non_diatonic_chords) cs
        = filter (\<lambda>c. c \<in> {''C7'', ''D7'', ''E7'', ''A7'', ''Dm7b5'', ''Gmin7''}) cs"
  proof (rule filter_cong [OF refl])
    fix c assume "c \<in> set cs"
    then have "c \<in> set (dict_keys main_chord_mappings)" using assms by (rule subsetD [rotated])
    then show "(c \<in> non_diatonic_chords)
               = (c \<in> {''C7'', ''D7'', ''E7'', ''A7'', ''Dm7b5'', ''Gmin7''})"
      by (rule main_non_diatonic)
  qed
  then have 1: "NonDiatonicChords_calculate cs =
           (if cs = [] then Inl ZeroDivisionError
            else Inr (real (length (filter
                   (\<lambda>c. c \<in> {''C7'', ''D7'', ''E7'', ''A7'', ''Dm7b5'', ''Gmin7''}) cs))
                 / real (length cs)))"
    by (simp add: NonDiatonicChords_count)
  have 2: "E_dim7 \<in> set (dict_keys main_chord_mappings)" by (simp add: main_keys)
  have 3: "E_dim7 \<notin> non_diatonic_chords" by (simp add: non_diatonic_chords_def E_dim7_def)
  have 4: "[CHR ''E'', CHR 0xC2, CHR 0xBA, CHR ''7''] \<in> non_diatonic_chords"
    by (simp add: non_diatonic_chords_def)
  have 5: "[CHR ''E'', CHR 0xC2, CHR 0xBA, CHR ''7''] \<notin> set (dict_keys main_chord_mappings)"
    by (simp add: main_keys E_dim7_def)
  show ?thesis by (intro conjI 1 2 3 4 5)
qed

theorem NonDiatonicChords_main_vocabulary_witness:
  "set [''C7'', E_dim7, ''Cmaj7''] \<subseteq> set (dict_keys main_chord_mappings)
   \<and> NonDiatonicChords_calculate [''C7'', E_dim7, ''Cmaj7''] = Inr (1 / 3)
   \<and> NonDiatonicChords_calculate [E_dim7, E_dim7] = Inr 0"
proof -
  have a: "set [''C7'', E_dim7, ''Cmaj7''] \<subseteq> set (dict_keys main_chord_mappings)"
    by (simp add: main_keys)
  have b: "set [E_dim7, E_dim7] \<subseteq> set (dict_keys main_chord_mappings)"
    by (simp add: main_keys)
  have c: "NonDiatonicChords_calculate [''C7'', E_dim7, ''Cmaj7''] = Inr (1 / 3)"
    using NonDiatonicChords_main_vocabulary [OF a] by (simp add: E_dim7_def)
  have d: "NonDiatonicChords_calculate [E_dim7, E_dim7] = Inr 0"
    using NonDiatonicChords_main_vocabulary [OF b] by (simp add: E_dim7_def)
  show ?thesis by (intro conjI a c d)
qed


section \<open>Bounds of the metrics (C8)\<close>

lemma ChordVariety_bounds:
  assumes "cs \<noteq> []" and "set cs \<subseteq> set (dict_keys cm)"
  shows "\<exists>v. ChordVariety_calculate cm cs = Inr v \<and> 0 \<le> v \<and> v \<le> 1"
proof -
  have u: "length (remdups cs) = card (set cs)" by (rule length_remdups_card_conv)
  have t: "dict_len cm = card (set (dict_keys cm))"
    by (simp add: dict_len_def dict_keys_def length_remdups_card_conv)
  have le: "card (set cs) \<le> card (set (dict_keys cm))"
    using assms(2) by (intro card_mono) simp_all
  have "0 < card (set cs)" using assms(1) by (simp add: card_gt_0_iff)
  then have pos: "0 < dict_len cm" using le t by simp
  have "real (length (remdups cs)) / real (dict_len cm) \<le> 1"
    using le pos u t by simp
  then show ?thesis
    using pos by (simp add: ChordVariety_calculate_def Let_def py_truediv_def)
qed

lemma ChordRepetitions_at_most_1:
  assumes "3 \<le> length cs"
  shows "\<exists>v. ChordRepetitions_calculate cs = Inr v \<and> v \<le> 1"
proof -
  have "0 \<le> (real (length (filter (\<lambda>i. cs ! i = cs ! (i + 1)) [0 ..< length cs - 2]))
            + real (length (filter (\<lambda>i. cs ! i = cs ! (i + 2)) [0 ..< length cs - 2])))
            / real (length cs - 2)"
    by (intro divide_nonneg_nonneg add_nonneg_nonneg) simp_all
  then show ?thesis using ChordRepetitions_windows [OF assms] by simp
qed

lemma ParallelFifths_body_in_range:
  assumes "Suc i < length cs"
  shows "ParallelFifths_body pf cs p s i = Inr (if {cs ! i, cs ! Suc i} \<in> pf then s + p else s)"
proof -
  have a: "list_getitem cs (int i) = Inr (cs ! i)" using assms by simp
  have b: "list_getitem cs (int i + 1) = Inr (cs ! Suc i)"
    using assms by (simp add: list_getitem_Suc)
  show ?thesis unfolding ParallelFifths_body_def a b py_bind_simps by simp
qed

lemma ParallelFifths_at_most_1:
  assumes "2 \<le> length cs"
  shows "\<exists>v. ParallelFifths_calculate pf cs = Inr v \<and> v \<le> 1"
proof -
  let ?n = "int (length cs) - 1"
  let ?p = "- 1 / real_of_int ?n"
  have nz: "real_of_int ?n \<noteq> 0" using assms by simp
  have neg: "?p \<le> 0" using assms by simp
  have rng: "py_range ?n = [0 ..< length cs - 1]" by (simp add: py_range_def nat_diff_distrib')
  have "\<exists>t. for_loop (ParallelFifths_body pf cs ?p) [0 ..< length cs - 1] 1 = Inr t \<and> t \<le> 1"
  proof (rule for_loop_total)
    show "(1::real) \<le> 1" by simp
  next
    fix i and a :: real
    assume i: "i \<in> set [0 ..< length cs - 1]" and a: "a \<le> 1"
    then have si: "Suc i < length cs" by simp
    have "a + ?p \<le> 1" using a neg by linarith
    then show "\<exists>b. ParallelFifths_body pf cs ?p a i = Inr b \<and> b \<le> 1"
      unfolding ParallelFifths_body_in_range [OF si] using a by simp
  qed
  then show ?thesis
    using nz by (simp add: ParallelFifths_calculate_def Let_def py_truediv_def rng)
qed

text \<open>
  Claim C8: on every chord sequence of length at least 3 whose chords are names of the
  chord vocabulary, \<open>ChordVariety.calculate\<close> returns a value in \<open>[0, 1]\<close>, and
  \<open>ChordRepetitions.calculate\<close> and \<open>ParallelFifths.calculate\<close> each return a value of
  at most 1.
\<close>

theorem metric_bounds:
  assumes "3 \<le> length cs" and "set cs \<subseteq> set (dict_keys cm)"
  shows "(\<exists>v. ChordVariety_calculate cm cs = Inr v \<and> 0 \<le> v \<and> v \<le> 1)
       \<and> (\<exists>v. ChordRepetitions_calculate cs = Inr v \<and> v \<le> 1)
       \<and> (\<exists>v. ParallelFifths_calculate pf cs = Inr v \<and> v \<le> 1)"
proof -
  have ne: "cs \<noteq> []" and two: "2 \<le> length cs" using assms(1) by auto
  show ?thesis
    by (intro conjI ChordVariety_bounds [OF ne assms(2)]
          ChordRepetitions_at_most_1 [OF assms(1)] ParallelFifths_at_most_1 [OF two])
qed

theorem metric_bounds_witness:
  "3 \<le> length [''G7'', ''G7'', ''Cmaj7'']
   \<and> set [''G7'', ''G7'', ''Cmaj7''] \<subseteq> set (dict_keys two_chords)
   \<and> (\<exists>v. ChordVariety_calculate two_chords [''G7'', ''G7'', ''Cmaj7''] = Inr v \<and> 0 \<le> v \<and> v \<le> 1)
   \<and> (\<exists>v. ChordRepetitions_calculate [''G7'', ''G7'', ''Cmaj7''] = Inr v \<and> v \<le> 1)
   \<and> (\<exists>v. ParallelFifths_calculate {{''G7'', ''Cmaj7''}} [''G7'', ''G7'', ''Cmaj7''] = Inr v \<and> v \<le> 1)"
proof -
  have a: "3 \<le> length [''G7'', ''G7'', ''Cmaj7'']" by simp
  have b: "set [''G7'', ''G7'', ''Cmaj7''] \<subseteq> set (dict_keys two_chords)"
    by (simp add: dict_keys_def two_chords_def)
  show ?thesis
    using a b metric_bounds [OF a b, of "{{''G7'', ''Cmaj7''}}"] by (intro conjI) blast+
qed


section \<open>Runs of the example configuration\<close>

lemma rng0_next [simp]: "rng_next (rng0 k) = (0, rng0 (Suc k))"
  by (simp add: rng_next_def rng0_def)

lemma rng0_choice [simp]: "xs \<noteq> [] \<Longrightarrow> random_choice xs (rng0 k) = Inr (xs ! 0, rng0 (Suc k))"
  by (simp add: random_choice_def)

lemma rng0_randint [simp]: "a \<le> b \<Longrightarrow> random_randint a b (rng0 k) = Inr (a, rng0 (Suc k))"
  by (simp add: random_randint_def)

lemma rng0_random [simp]: "random_random (rng0 k) = (0, rng0 (Suc k))"
  by (simp add: random_random_def)

lemma example_fields [simp]:
  "melody_data (example_harmonizer md n w) = md"
  "chords (example_harmonizer md n w) = [''Cmaj7'', ''G7'']"
  "mutation_rate (example_harmonizer md n w) = 5 / 100"
  "population_size (example_harmonizer md n w) = n"
  "fitness_evaluator (example_harmonizer md n w) = example_evaluator md w"
  "population (example_harmonizer md n w) = []"
  by (simp_all add: example_harmonizer_def GeneticMelodyHarmonizer_init_def dict_keys_def
        two_chords_def)

lemma melody_fields [simp]:
  "number_of_bars one_bar = 1" "duration one_bar = 4"
  "melody_notes one_bar = [(''C5'', 1), (''C5'', 1), (''G5'', 1), (''G5'', 1)]"
  "number_of_bars two_bars = 2" "duration two_bars = 8"
  "melody_notes two_bars =
     [(''C5'', 1), (''C5'', 1), (''G5'', 1), (''G5'', 1), (''A5'', 1), (''A5'', 1), (''G5'', 2)]"
  by (simp_all add: one_bar_def two_bars_def MelodyData_post_init_def)

lemma random_sequence_two_bars:
  "generate_random_chord_sequence (example_harmonizer two_bars n w) (rng0 k)
     = Inr (Cmaj7_4, rng0 (k + 4))"
  by (simp add: generate_random_chord_sequence_def Cmaj7_4_def numeral_eq_Suc)

lemma random_sequence_one_bar:
  "generate_random_chord_sequence (example_harmonizer one_bar n w) (rng0 k)
     = Inr (Cmaj7_2, rng0 (k + 2))"
  by (simp add: generate_random_chord_sequence_def Cmaj7_2_def numeral_eq_Suc)

lemma evaluator_fields [simp]:
  "ev_melody_data (example_evaluator md w) = md"
  "chord_mappings (example_evaluator md w) = two_chords"
  "weights (example_evaluator md w) = w"
  "preferred_transitions (example_evaluator md w) = two_chord_transitions"
  "chords_with_parallel_fifths (example_evaluator md w) = {}"
  "common_progressions (example_evaluator md w) = []"
  by (simp_all add: example_evaluator_def)

lemma cmc_Cmaj7_4:
  "ChordMelodyCongruence_calculate two_bars two_chords Cmaj7_4 = Inr (3 / 4)"
  by (simp add: ChordMelodyCongruence_calculate_def cmc_body_def cmc_while.simps Cmaj7_4_def
        two_chords_def dict_getitem_def list_getitem_def py_truediv_def)

lemma cmc_Cmaj7_2:
  "ChordMelodyCongruence_calculate one_bar two_chords Cmaj7_2 = Inr 1"
  by (simp add: ChordMelodyCongruence_calculate_def cmc_body_def cmc_while.simps Cmaj7_2_def
        two_chords_def dict_getitem_def list_getitem_def py_truediv_def)

lemma variety_Cmaj7:
  "ChordVariety_calculate two_chords Cmaj7_4 = Inr (1 / 2)"
  "ChordVariety_calculate two_chords Cmaj7_2 = Inr (1 / 2)"
  by (simp_all add: ChordVariety_calculate_def Cmaj7_4_def Cmaj7_2_def two_chords_def
        dict_len_def dict_keys_def py_truediv_def)

lemma flow_Cmaj7:
  "HarmonicFlow_calculate two_chord_transitions Cmaj7_4 = Inr 0"
  "HarmonicFlow_calculate two_chord_transitions Cmaj7_2 = Inr 0"
  by (simp_all add: HarmonicFlow_calculate_def HarmonicFlow_body_def Cmaj7_4_def Cmaj7_2_def
        two_chord_transitions_def E_dim7_def dict_getitem_def list_getitem_def py_truediv_def
        py_range_def upt_rec)

lemma harmony_Cmaj7:
  "FunctionalHarmony_calculate Cmaj7_4 = Inr (2 / 3)"
  "FunctionalHarmony_calculate Cmaj7_2 = Inr (2 / 3)"
  by (simp_all add: FunctionalHarmony_calculate_def Cmaj7_4_def Cmaj7_2_def list_getitem_def)

lemma voices_Cmaj7:
  "VoiceLeading_calculate two_chords Cmaj7_4 = Inr 1"
  "VoiceLeading_calculate two_chords Cmaj7_2 = Inr 1"
  by (simp_all add: VoiceLeading_calculate_def VoiceLeading_body_def Cmaj7_4_def Cmaj7_2_def
        two_chords_def dict_getitem_def list_getitem_def py_truediv_def py_range_def upt_rec)

lemma repetitions_Cmaj7_4: "ChordRepetitions_calculate Cmaj7_4 = Inr (- 1)"
  by (simp add: ChordRepetitions_calculate_def ChordRepetitions_body_def Cmaj7_4_def
        list_getitem_def py_truediv_def py_range_def upt_rec)

lemma repetitions_length_2:
  "length cs = 2 \<Longrightarrow> ChordRepetitions_calculate cs = Inl ZeroDivisionError"
  by (simp add: ChordRepetitions_calculate_def py_truediv_def)

lemma repetitions_Cmaj7_2: "ChordRepetitions_calculate Cmaj7_2 = Inl ZeroDivisionError"
  by (simp add: repetitions_length_2 Cmaj7_2_def)

lemma progressions_Cmaj7_4: "FunctionalProgressions_calculate [] Cmaj7_4 = Inr 0"
  by (simp add: FunctionalProgressions_calculate_def FunctionalProgressions_body_def Cmaj7_4_def
        py_truediv_def py_range_def upt_rec)

lemma non_diatonic_Cmaj7_4: "NonDiatonicChords_calculate Cmaj7_4 = Inr 0"
  by (simp add: NonDiatonicChords_calculate_def non_diatonic_chords_def Cmaj7_4_def
        py_truediv_def)

lemma fifths_Cmaj7_4: "ParallelFifths_calculate {} Cmaj7_4 = Inr 1"
  by (simp add: ParallelFifths_calculate_def ParallelFifths_body_def Cmaj7_4_def
        list_getitem_def py_truediv_def py_range_def upt_rec)

lemmas metrics_Cmaj7 = cmc_Cmaj7_4 cmc_Cmaj7_2 variety_Cmaj7 flow_Cmaj7 harmony_Cmaj7
  voices_Cmaj7 repetitions_Cmaj7_4 progressions_Cmaj7_4 non_diatonic_Cmaj7_4 fifths_Cmaj7_4

lemma evaluate_Cmaj7_4:
  "evaluate (example_evaluator two_bars main_weights) Cmaj7_4 = Inr (77 / 300)"
  by (simp add: evaluate_def metric_classes_def evaluate_body_def metrics_Cmaj7
        main_weights_def dict_get_def)

lemma evaluate_Cmaj7_4_no_weights:
  "evaluate (example_evaluator two_bars []) Cmaj7_4 = Inr 0"
  by (simp add: evaluate_def metric_classes_def evaluate_body_def metrics_Cmaj7 dict_get_def)

lemma evaluate_Cmaj7_2:
  "evaluate (example_evaluator one_bar w) Cmaj7_2 = Inl ZeroDivisionError"
  by (simp add: evaluate_def metric_classes_def evaluate_body_def metrics_Cmaj7
        repetitions_Cmaj7_2)


lemma initial_population_two_bars_2:
  "initialise_population (example_harmonizer two_bars 2 w) (rng0 k)
     = Inr ([Cmaj7_4, Cmaj7_4], rng0 (k + 8))"
  by (simp add: initialise_population_def random_sequence_two_bars numeral_eq_Suc)

lemma initial_population_two_bars_3:
  "initialise_population (example_harmonizer two_bars 3 w) (rng0 k)
     = Inr ([Cmaj7_4, Cmaj7_4, Cmaj7_4], rng0 (k + 12))"
  by (simp add: initialise_population_def random_sequence_two_bars numeral_eq_Suc)

lemma initial_population_one_bar_2:
  "initialise_population (example_harmonizer one_bar 2 w) (rng0 k)
     = Inr ([Cmaj7_2, Cmaj7_2], rng0 (k + 4))"
  by (simp add: initialise_population_def random_sequence_one_bar numeral_eq_Suc)

lemma select_parents_two_bars_2:
  "select_parents ((example_harmonizer two_bars 2 main_weights)\<lparr>population := [Cmaj7_4, Cmaj7_4]\<rparr>)
     (rng0 k) = Inr ([Cmaj7_4, Cmaj7_4], rng0 (k + 2))"
  by (simp add: select_parents_def evaluate_Cmaj7_4 random_choices_def accumulate_def
        list_getitem_def bisect_right.simps Let_def numeral_eq_Suc)

lemma select_parents_two_bars_3:
  "select_parents
     ((example_harmonizer two_bars 3 main_weights)\<lparr>population := [Cmaj7_4, Cmaj7_4, Cmaj7_4]\<rparr>)
     (rng0 k) = Inr ([Cmaj7_4, Cmaj7_4, Cmaj7_4], rng0 (k + 3))"
  by (simp add: select_parents_def evaluate_Cmaj7_4 random_choices_def accumulate_def
        list_getitem_def bisect_right.simps Let_def numeral_eq_Suc)

lemma crossover_Cmaj7_4: "crossover Cmaj7_4 Cmaj7_4 (rng0 k) = Inr (Cmaj7_4, rng0 (Suc k))"
  by (simp add: crossover_def Cmaj7_4_def)

lemma mutate_Cmaj7_4:
  "mutate ((example_harmonizer two_bars n w)\<lparr>population := p\<rparr>) Cmaj7_4 (rng0 k)
     = Inr (Cmaj7_4, rng0 (k + 3))"
  by (simp add: mutate_def list_setitem_def Cmaj7_4_def numeral_eq_Suc)

lemma create_new_population_two_bars_2:
  "create_new_population ((example_harmonizer two_bars 2 w)\<lparr>population := p\<rparr>)
     [Cmaj7_4, Cmaj7_4] (rng0 k) = Inr ([Cmaj7_4, Cmaj7_4], rng0 (k + 8))"
  by (simp add: create_new_population_def create_new_population_body_def py_range_step2_def
        crossover_Cmaj7_4 mutate_Cmaj7_4 list_getitem_def upt_rec add.commute)

lemma generation_step_two_bars_2:
  "generation_step
     ((example_harmonizer two_bars 2 main_weights)\<lparr>population := [Cmaj7_4, Cmaj7_4]\<rparr>, rng0 k) i
   = Inr ((example_harmonizer two_bars 2 main_weights)\<lparr>population := [Cmaj7_4, Cmaj7_4]\<rparr>,
          rng0 (k + 10))"
  by (simp add: generation_step_def select_parents_two_bars_2 create_new_population_two_bars_2
        add.commute)

lemma max_loop_ties:
  "\<forall>x\<in>set rest. key x = Inr v \<Longrightarrow> max_loop key rest b v = Inr b"
  by (induction rest) simp_all

lemma best_Cmaj7_4:
  assumes "set rest \<subseteq> {Cmaj7_4}"
  shows "get_chord_sequence_with_highest_fitness (example_evaluator two_bars main_weights)
           (Cmaj7_4 # rest) = Inr Cmaj7_4"
proof -
  have "\<forall>x\<in>set rest. evaluate (example_evaluator two_bars main_weights) x = Inr (77 / 300)"
    using assms evaluate_Cmaj7_4 by auto
  then show ?thesis
    by (simp add: get_chord_sequence_with_highest_fitness_def py_max_def evaluate_Cmaj7_4
          max_loop_ties)
qed



section \<open>Fitness evaluation (C7)\<close>

lemma evaluate_loop_sum:
  assumes "list_all2 (\<lambda>m s. calculate m cs = Inr s) ms ss"
  shows "for_loop (evaluate_body ev cs) ms t
         = Inr (t + sum_list (map2 (\<lambda>m s. s * dict_get (weights ev) (class_name m) 0) ms ss))"
  using assms
  by (induction arbitrary: t rule: list_all2_induct)
     (simp_all add: evaluate_body_def Let_def algebra_simps)

lemma evaluate_raises:
  assumes "m \<in> set (metric_classes ev)" and "raises (calculate m cs)"
  shows "raises (evaluate ev cs)"
proof -
  from assms(1) obtain xs ys where s: "metric_classes ev = xs @ m # ys"
    by (auto dest: split_list)
  have "raises (evaluate_body ev cs a m)" for a
    using assms(2) by (simp add: evaluate_body_def Let_def raises_py_bind)
  then show ?thesis unfolding evaluate_def s by (rule for_loop_raises_at)
qed

lemma evaluate_length_2:
  assumes "length cs = 2"
  shows "raises (evaluate ev cs)"
proof (rule evaluate_raises)
  show "ChordRepetitions \<in> set (metric_classes ev)" by (simp add: metric_classes_def)
  show "raises (calculate ChordRepetitions cs)"
    using assms by (simp add: repetitions_length_2)
qed

text \<open>
  Claim C7, as stated, holds for every chord sequence, and gives \<open>0.0\<close> on any sequence
  when the weight mapping is empty. Every metric is computed before its weight is looked
  up, so a sequence on which a metric raises has no fitness at all: on the two-chord
  sequence \<open>[Cmaj7, Cmaj7]\<close> and the empty weight mapping \<open>evaluate\<close> raises
  \<open>ZeroDivisionError\<close> (from \<open>ChordRepetitions\<close>, whose divisor is \<open>length - 2\<close>).
\<close>

theorem evaluate_empty_weights_raises:
  "evaluate (example_evaluator one_bar []) [''Cmaj7'', ''Cmaj7''] = Inl ZeroDivisionError
   \<and> weights (example_evaluator one_bar []) = []"
  using evaluate_Cmaj7_2 [of "[]"] by (simp add: Cmaj7_2_def)

text \<open>
  Claim C7, amended: for every chord sequence on which each of the nine metrics returns
  a score, \<open>evaluate\<close> returns the sum over the nine metrics of score times weight, the
  weight of a metric absent from the weight mapping being 0; with an empty weight mapping
  it returns 0 on such a sequence. When one of the metrics raises, \<open>evaluate\<close> raises.
\<close>

theorem evaluate_weighted_sum:
  "(list_all2 (\<lambda>m s. calculate m cs = Inr s) (metric_classes ev) ss \<longrightarrow>
      evaluate ev cs
        = Inr (sum_list (map2 (\<lambda>m s. s * dict_get (weights ev) (class_name m) 0)
                 (metric_classes ev) ss))
      \<and> (weights ev = [] \<longrightarrow> evaluate ev cs = Inr 0))
   \<and> ((\<exists>m\<in>set (metric_classes ev). raises (calculate m cs)) \<longrightarrow> raises (evaluate ev cs))"
proof (intro conjI impI)
  assume a: "list_all2 (\<lambda>m s. calculate m cs = Inr s) (metric_classes ev) ss"
  show e: "evaluate ev cs
        = Inr (sum_list (map2 (\<lambda>m s. s * dict_get (weights ev) (class_name m) 0)
                 (metric_classes ev) ss))"
    unfolding evaluate_def evaluate_loop_sum [OF a] by simp
  assume w: "weights ev = []"
  have "sum_list (map2 (\<lambda>m s. s * dict_get [] (class_name m) 0) ms ss) = (0::real)"
    for ms :: "Metric list" and ss
    by (induction ms ss rule: list_induct2') (simp_all add: dict_get_def)
  then show "evaluate ev cs = Inr 0" using e w by simp
next
  assume "\<exists>m\<in>set (metric_classes ev). raises (calculate m cs)"
  then show "raises (evaluate ev cs)" using evaluate_raises by blast
qed

theorem evaluate_weighted_sum_witness:
  "list_all2 (\<lambda>m s. calculate m Cmaj7_4 = Inr s)
     (metric_classes (example_evaluator two_bars main_weights))
     [3 / 4, 1 / 2, 0, 2 / 3, 1, - 1, 0, 0, 1]
   \<and> evaluate (example_evaluator two_bars main_weights) Cmaj7_4 = Inr (77 / 300)
   \<and> list_all2 (\<lambda>m s. calculate m Cmaj7_4 = Inr s)
     (metric_classes (example_evaluator two_bars []))
     [3 / 4, 1 / 2, 0, 2 / 3, 1, - 1, 0, 0, 1]
   \<and> weights (example_evaluator two_bars []) = []
   \<and> evaluate (example_evaluator two_bars []) Cmaj7_4 = Inr 0
   \<and> (\<exists>m\<in>set (metric_classes (example_evaluator one_bar main_weights)).
         raises (calculate m Cmaj7_2))
   \<and> raises (evaluate (example_evaluator one_bar main_weights) Cmaj7_2)"
proof -
  have a: "list_all2 (\<lambda>m s. calculate m Cmaj7_4 = Inr s)
     (metric_classes (example_evaluator two_bars w))
     [3 / 4, 1 / 2, 0, 2 / 3, 1, - 1, 0, 0, 1]" for w
    by (simp add: metric_classes_def metrics_Cmaj7)
  have b: "\<exists>m\<in>set (metric_classes (example_evaluator one_bar main_weights)).
         raises (calculate m Cmaj7_2)"
    by (simp add: metric_classes_def repetitions_Cmaj7_2)
  have c: "weights (example_evaluator two_bars []) = []" by simp
  show ?thesis
    using a [of main_weights] a [of "[]"] b c
      evaluate_weighted_sum [of Cmaj7_4 "example_evaluator two_bars main_weights"
        "[3 / 4, 1 / 2, 0, 2 / 3, 1, - 1, 0, 0, 1]"]
      evaluate_weighted_sum [of Cmaj7_4 "example_evaluator two_bars []"
        "[3 / 4, 1 / 2, 0, 2 / 3, 1, - 1, 0, 0, 1]"]
      evaluate_weighted_sum [of Cmaj7_2 "example_evaluator one_bar main_weights"]
    by (simp add: metric_classes_def main_weights_def dict_get_def)
qed


section \<open>Parent selection on degenerate weights (C3)\<close>

lemma map_result_all:
  "\<forall>x\<in>set xs. f x = Inr (g x) \<Longrightarrow> map_result f xs = Inr (map g xs)"
  by (induction xs) simp_all

lemma accumulate_from_length [simp]: "length (accumulate_from a ws) = length ws"
  by (induction ws arbitrary: a) simp_all

lemma accumulate_length [simp]: "length (accumulate ws) = length ws"
  by (cases ws) (simp_all add: accumulate_def)

lemma accumulate_from_last: "last (a # accumulate_from a ws) = a + sum_list ws"
  by (induction ws arbitrary: a) (simp_all add: algebra_simps)

lemma accumulate_last: "ws \<noteq> [] \<Longrightarrow> last (accumulate ws) = sum_list ws"
proof (cases ws)
  case Nil
  assume "ws \<noteq> []"
  then show ?thesis using Nil by simp
next
  case (Cons a list)
  have "accumulate ws = a # accumulate_from a list" by (simp add: accumulate_def Cons)
  then show ?thesis using accumulate_from_last [of a list] Cons by simp
qed

lemma list_getitem_last: "xs \<noteq> [] \<Longrightarrow> list_getitem xs (- 1) = Inr (last xs)"
  by (cases xs rule: rev_cases) (simp_all add: list_getitem_def)

lemma random_choices_total_not_positive:
  assumes "length ws = length pop" and "pop \<noteq> []" and "sum_list ws \<le> 0"
  shows "random_choices pop ws k g = Inl ValueError"
proof -
  have ne: "accumulate ws \<noteq> []" using assms(1,2) by (cases ws) (simp_all add: accumulate_def)
  have "ws \<noteq> []" using assms(1,2) by auto
  then have "list_getitem (accumulate ws) (- 1) = Inr (sum_list ws)"
    using list_getitem_last [OF ne] by (simp add: accumulate_last)
  then show ?thesis using assms by (simp add: random_choices_def Let_def)
qed

text \<open>
  Claim C3, as stated: when every individual evaluates to fitness 0, parent selection
  falls back to a defined policy and no failure of the weighted sampling is propagated.
  \<open>_select_parents\<close> passes the fitness values to \<open>random.choices\<close> as they are, and
  there is no other branch: with an empty weight mapping the sequence
  \<open>[Cmaj7, Cmaj7, Cmaj7, Cmaj7]\<close> has fitness 0, a population of two such sequences has
  total weight 0, and selection raises the \<open>ValueError\<close> of \<open>random.choices\<close>; so does
  the run of \<open>generate\<close> that starts from this configuration.
\<close>

theorem select_parents_zero_fitness_fails:
  "evaluate (example_evaluator two_bars []) Cmaj7_4 = Inr 0
   \<and> select_parents ((example_harmonizer two_bars 2 [])\<lparr>population := [Cmaj7_4, Cmaj7_4]\<rparr>)
         (rng0 0) = Inl ValueError
   \<and> generate (example_harmonizer two_bars 2 []) 1 (rng0 0) = Inl ValueError"
proof -
  have s: "select_parents ((example_harmonizer two_bars 2 [])\<lparr>population := [Cmaj7_4, Cmaj7_4]\<rparr>)
         (rng0 k) = Inl ValueError" for k
    by (simp add: select_parents_def evaluate_Cmaj7_4_no_weights random_choices_def
          accumulate_def list_getitem_def Let_def)
  have "generate (example_harmonizer two_bars 2 []) 1 (rng0 0) = Inl ValueError"
    by (simp add: generate_def initial_population_two_bars_2 py_range_def generation_step_def s)
  then show ?thesis using s evaluate_Cmaj7_4_no_weights by simp
qed

text \<open>
  Claim C3, amended: when the population is not empty and every individual evaluates to
  fitness 0, parent selection has no fallback: the all-zero weights reach
  \<open>random.choices\<close>, whose total of weights is then 0, and \<open>_select_parents\<close> raises
  \<open>ValueError\<close>.
\<close>

theorem select_parents_zero_fitness:
  assumes "population h \<noteq> []"
    and "\<forall>cs\<in>set (population h). evaluate (fitness_evaluator h) cs = Inr 0"
  shows "select_parents h g = Inl ValueError"
proof -
  have m: "map_result (evaluate (fitness_evaluator h)) (population h)
           = Inr (map (\<lambda>cs. 0) (population h))"
    using assms(2) by (rule map_result_all)
  have "random_choices (population h) (map (\<lambda>cs. 0) (population h)) (population_size h) g
        = Inl ValueError"
    by (rule random_choices_total_not_positive) (simp_all add: assms(1))
  then show ?thesis by (simp add: select_parents_def m)
qed

theorem select_parents_zero_fitness_witness:
  "population ((example_harmonizer two_bars 2 [])\<lparr>population := [Cmaj7_4, Cmaj7_4]\<rparr>)
     = [Cmaj7_4, Cmaj7_4]
   \<and> evaluate (fitness_evaluator
         ((example_harmonizer two_bars 2 [])\<lparr>population := [Cmaj7_4, Cmaj7_4]\<rparr>)) Cmaj7_4
       = Inr 0
   \<and> select_parents ((example_harmonizer two_bars 2 [])\<lparr>population := [Cmaj7_4, Cmaj7_4]\<rparr>)
         (rng0 5) = Inl ValueError"
proof -
  let ?h = "(example_harmonizer two_bars 2 [])\<lparr>population := [Cmaj7_4, Cmaj7_4]\<rparr>"
  have a: "population ?h \<noteq> []" by simp
  have e: "evaluate (fitness_evaluator ?h) Cmaj7_4 = Inr 0"
    by (simp add: evaluate_Cmaj7_4_no_weights)
  then have b: "\<forall>cs\<in>set (population ?h). evaluate (fitness_evaluator ?h) cs = Inr 0"
    by simp
  show ?thesis using e select_parents_zero_fitness [OF a b, of "rng0 5"] by simp
qed


section \<open>Facts about the genetic operators\<close>

lemma random_randint_bounds:
  assumes "random_randint a b g = Inr (r, g')"
  shows "a \<le> r \<and> r \<le> b"
proof (cases "b < a")
  case True
  then show ?thesis using assms by (simp add: random_randint_def)
next
  case False
  then have "a \<le> b" by simp
  from random_randint_Inr [OF this, of g] show ?thesis using assms by auto
qed

lemma crossover_Inr:
  assumes "crossover p1 p2 g = Inr (c, g')"
  shows "c \<noteq> [] \<and> (length p2 = length p1 \<longrightarrow> length c = length p1)"
proof -
  from assms obtain r where rr: "random_randint 1 (int (length p1) - 1) g = Inr (r, g')"
    and c: "c = take (nat r) p1 @ drop (nat r) p2"
    by (auto simp: crossover_def py_bind_eq_Inr)
  from random_randint_bounds [OF rr] have lo: "1 \<le> r" and hi: "r \<le> int (length p1) - 1"
    by auto
  have "take (nat r) p1 \<noteq> []" using lo hi by auto
  then show ?thesis using c lo hi by auto
qed

lemma create_body_total:
  assumes "Suc i < length parents" and "\<forall>x\<in>set parents. 2 \<le> length x" and "chords h \<noteq> []"
  shows "\<exists>c1 c2 g'. create_new_population_body h parents (np, g) i = Inr (np @ [c1, c2], g')"
proof -
  let ?p = "parents ! i" and ?q = "parents ! Suc i"
  have a: "list_getitem parents (int i) = Inr ?p" using assms(1) by simp
  have b: "list_getitem parents (int i + 1) = Inr ?q" using assms(1) by (simp add: list_getitem_Suc)
  have lp: "2 \<le> length ?p" and lq: "2 \<le> length ?q" using assms(1,2) by simp_all
  from crossover_total [OF lp, of ?q g] obtain c1 g1
    where x1: "crossover ?p ?q g = Inr (c1, g1)" by blast
  from crossover_total [OF lq, of ?p g1] obtain c2 g2
    where x2: "crossover ?q ?p g1 = Inr (c2, g2)" by blast
  have n1: "c1 \<noteq> []" using crossover_Inr [OF x1] by simp
  have n2: "c2 \<noteq> []" using crossover_Inr [OF x2] by simp
  from mutate_total [OF assms(3) n1, of g2] obtain d1 g3
    where m1: "mutate h c1 g2 = Inr (d1, g3)" by blast
  from mutate_total [OF assms(3) n2, of g3] obtain d2 g4
    where m2: "mutate h c2 g3 = Inr (d2, g4)" by blast
  have "create_new_population_body h parents (np, g) i = Inr (np @ [d1, d2], g4)"
    by (simp add: create_new_population_body_def a b x1 x2 m1 m2)
  then show ?thesis by blast
qed

lemma create_body_Inr:
  assumes "create_new_population_body h parents (np, g) i = Inr (np', g')"
  shows "\<exists>c1 c2 p q. np' = np @ [c1, c2] \<and> p \<in> set parents \<and> q \<in> set parents
           \<and> (length q = length p \<longrightarrow> length c1 = length p \<and> length c2 = length p)"
proof -
  from assms obtain p q c1 g1 c2 g2 d1 g3 d2
    where a: "list_getitem parents (int i) = Inr p"
      and b: "list_getitem parents (int i + 1) = Inr q"
      and x1: "crossover p q g = Inr (c1, g1)"
      and x2: "crossover q p g1 = Inr (c2, g2)"
      and m1: "mutate h c1 g2 = Inr (d1, g3)"
      and m2: "mutate h c2 g3 = Inr (d2, g')"
      and n: "np' = np @ [d1, d2]"
    by (auto simp: create_new_population_body_def py_bind_eq_Inr)
  have "p \<in> set parents" "q \<in> set parents"
    using a b by (auto dest: list_getitem_mem)
  moreover have "length q = length p \<longrightarrow> length d1 = length p \<and> length d2 = length p"
    using crossover_Inr [OF x1] crossover_Inr [OF x2]
      mutate_Inr_length [OF m1] mutate_Inr_length [OF m2] by auto
  ultimately show ?thesis using n by blast
qed

lemma create_loop_length:
  assumes "for_loop (create_new_population_body h parents) xs (np, g) = Inr (np', g')"
  shows "length np' = length np + 2 * length xs"
  using assms
proof (induction xs arbitrary: np g)
  case Nil
  then show ?case by simp
next
  case (Cons i xs)
  from Cons.prems obtain np1 g1
    where b: "create_new_population_body h parents (np, g) i = Inr (np1, g1)"
      and r: "for_loop (create_new_population_body h parents) xs (np1, g1) = Inr (np', g')"
    by (auto split: sum.splits)
  from create_body_Inr [OF b] have "length np1 = length np + 2" by auto
  then show ?case using Cons.IH [OF r] by simp
qed

lemma py_range_step2_length: "length (py_range_step2 p) = nat ((p + 1) div 2)"
  by (simp add: py_range_step2_def)

lemma create_new_population_length:
  assumes "create_new_population h parents g = Inr (np, g')" and "even (population_size h)"
  shows "length np = nat (population_size h)"
proof -
  have "length np = 2 * nat ((population_size h + 1) div 2)"
    using create_loop_length [of h parents _ "[]" g np g'] assms(1)
    by (simp add: create_new_population_def py_range_step2_length)
  moreover have "2 * nat ((population_size h + 1) div 2) = nat (population_size h)"
    using assms(2) by (elim evenE) auto
  ultimately show ?thesis by simp
qed


lemma create_new_population_total:
  assumes "even (population_size h)" and "length parents = nat (population_size h)"
    and "\<forall>x\<in>set parents. 2 \<le> length x" and "chords h \<noteq> []"
  shows "\<exists>np g'. create_new_population h parents g = Inr (np, g')"
proof -
  have "\<exists>t. for_loop (create_new_population_body h parents)
              (py_range_step2 (population_size h)) ([], g) = Inr t \<and> True"
  proof (rule for_loop_total)
    show True ..
  next
    fix i and a :: "string list list \<times> rng"
    assume "i \<in> set (py_range_step2 (population_size h))"
    then obtain j where j: "j < nat ((population_size h + 1) div 2)" and i: "i = 2 * j"
      by (auto simp: py_range_step2_def)
    have "Suc i < length parents"
      using j i assms(1,2) by (elim evenE) auto
    from create_body_total [OF this assms(3,4), of "fst a" "snd a"]
    show "\<exists>b. create_new_population_body h parents a i = Inr b \<and> True" by auto
  qed
  then show ?thesis by (auto simp: create_new_population_def)
qed

lemma create_new_population_odd:
  assumes "odd (population_size h)" and "0 \<le> population_size h"
    and "length parents = nat (population_size h)"
    and "\<forall>x\<in>set parents. 2 \<le> length x" and "chords h \<noteq> []"
  shows "create_new_population h parents g = Inl IndexError"
proof -
  from assms(1) obtain k where k: "population_size h = 2 * k + 1" by (elim oddE)
  then have "0 \<le> k" using assms(2) by simp
  then obtain m where "k = int m" by (elim nonneg_int_cases)
  then have m: "population_size h = 2 * int m + 1" using k by simp
  have len: "length parents = 2 * m + 1" using assms(3) m by simp
  have "nat ((population_size h + 1) div 2) = Suc m" using m by simp
  then have r: "py_range_step2 (population_size h) = map (\<lambda>j. 2 * j) [0 ..< m] @ [2 * m]"
    by (simp add: py_range_step2_def)
  have "\<exists>t. for_loop (create_new_population_body h parents) (map (\<lambda>j. 2 * j) [0 ..< m]) ([], g)
              = Inr t \<and> True"
  proof (rule for_loop_total)
    show True ..
  next
    fix i and a :: "string list list \<times> rng"
    assume "i \<in> set (map (\<lambda>j. 2 * j) [0 ..< m])"
    then have "Suc i < length parents" using len by auto
    from create_body_total [OF this assms(4,5), of "fst a" "snd a"]
    show "\<exists>b. create_new_population_body h parents a i = Inr b \<and> True" by auto
  qed
  then obtain t where t: "for_loop (create_new_population_body h parents)
      (map (\<lambda>j. 2 * j) [0 ..< m]) ([], g) = Inr t" by blast
  have a: "list_getitem parents (int (2 * m)) = Inr (parents ! (2 * m))"
    using len by (intro list_getitem_nat) simp
  have "list_getitem parents (int (Suc (2 * m))) = Inl IndexError"
    using len by (intro list_getitem_out) simp
  then have b: "list_getitem parents (int (2 * m) + 1) = Inl IndexError"
    by (simp add: add.commute)
  have "create_new_population_body h parents t (2 * m) = Inl IndexError"
    unfolding create_new_population_body_def a b by (cases t) simp
  then show ?thesis
    unfolding create_new_population_def r for_loop_append t by simp
qed

lemma random_choices_Inr:
  assumes "random_choices pop ws k g = Inr (xs, g')"
  shows "length xs = nat k \<and> set xs \<subseteq> set pop"
proof -
  from assms obtain total where
    r: "repeat_collect (nat k)
          (\<lambda>g1. case random_random g1 of (u, g2) \<Rightarrow>
             py_bind (list_getitem pop
                        (int (bisect_right (accumulate ws) (u * total) 0 (length pop - 1))))
               (\<lambda>x. Inr (x, g2)))
          g = Inr (xs, g')"
    by (auto simp: random_choices_def Let_def py_bind_eq_Inr split: if_splits)
  have "length xs = nat k \<and> (\<forall>x\<in>set xs. x \<in> set pop)"
    by (rule repeat_collect_Inr [OF r])
       (auto simp: py_bind_eq_Inr split: prod.splits dest: list_getitem_mem)
  then show ?thesis by auto
qed

lemma select_parents_Inr:
  assumes "select_parents h g = Inr (ps, g')"
  shows "length ps = nat (population_size h) \<and> set ps \<subseteq> set (population h)"
  using assms by (auto simp: select_parents_def py_bind_eq_Inr dest: random_choices_Inr)

lemma generate_random_chord_sequence_Inr:
  assumes "generate_random_chord_sequence h g = Inr (cs, g')"
  shows "length cs = nat (2 * number_of_bars (melody_data h))"
  using repeat_collect_Inr [of _ _ g cs g' "\<lambda>x. True"] assms
  by (simp add: generate_random_chord_sequence_def)

lemma initialise_population_Inr:
  assumes "initialise_population h g = Inr (pop, g')"
  shows "length pop = nat (population_size h)
         \<and> (\<forall>x\<in>set pop. length x = nat (2 * number_of_bars (melody_data h)))"
  using assms unfolding initialise_population_def
  by (rule repeat_collect_Inr) (rule generate_random_chord_sequence_Inr)




section \<open>Population size (C9)\<close>

lemma generation_step_Inr:
  assumes "generation_step (h, g) i = Inr (h', g')"
  shows "\<exists>parents g1 np. select_parents h g = Inr (parents, g1)
           \<and> create_new_population h parents g1 = Inr (np, g')
           \<and> h' = h\<lparr>population := np\<rparr>"
  using assms by (auto simp: generation_step_def py_bind_eq_Inr)

text \<open>
  Claim C9: in a valid configuration (even population size of at least 2, non-empty
  chord vocabulary) every generation step produces exactly \<open>population_size\<close>
  individuals. Selection returns \<open>population_size\<close> parents taken from the population;
  from that many parents of at least two chords each, \<open>_create_new_population\<close> returns
  a population of \<open>population_size\<close> individuals; and the harmonizer after one pass of the
  loop of \<open>generate\<close> has the same \<open>population_size\<close> and a population of that size.
\<close>

theorem generation_step_population_size:
  assumes "even (population_size h)" and "2 \<le> population_size h" and "chords h \<noteq> []"
  shows "(\<forall>parents g1. select_parents h g = Inr (parents, g1) \<longrightarrow>
            length parents = nat (population_size h) \<and> set parents \<subseteq> set (population h))
       \<and> (\<forall>parents. length parents = nat (population_size h)
                      \<and> (\<forall>x\<in>set parents. 2 \<le> length x) \<longrightarrow>
            (\<exists>np g2. create_new_population h parents g = Inr (np, g2)
                      \<and> length np = nat (population_size h)))
       \<and> (\<forall>h' g'. generation_step (h, g) i = Inr (h', g') \<longrightarrow>
            length (population h') = nat (population_size h)
            \<and> population_size h' = population_size h)"
proof (intro conjI allI impI)
  fix parents g1
  assume "select_parents h g = Inr (parents, g1)"
  from select_parents_Inr [OF this]
  show "length parents = nat (population_size h)" "set parents \<subseteq> set (population h)"
    by simp_all
next
  fix parents :: "string list list"
  assume p: "length parents = nat (population_size h) \<and> (\<forall>x\<in>set parents. 2 \<le> length x)"
  from create_new_population_total [of h parents g, OF assms(1) _ _ assms(3)] p
  obtain np g2 where c: "create_new_population h parents g = Inr (np, g2)" by blast
  from create_new_population_length [OF c assms(1)]
  show "\<exists>np g2. create_new_population h parents g = Inr (np, g2)
                 \<and> length np = nat (population_size h)"
    using c by blast
next
  fix h' g'
  assume s: "generation_step (h, g) i = Inr (h', g')"
  from generation_step_Inr [OF s] obtain parents g1 np
    where c: "create_new_population h parents g1 = Inr (np, g')"
      and h': "h' = h\<lparr>population := np\<rparr>" by blast
  from create_new_population_length [OF c assms(1)] h'
  show "length (population h') = nat (population_size h)"
    and "population_size h' = population_size h" by simp_all
qed

theorem generation_step_population_size_witness:
  "even (population_size (example_harmonizer two_bars 2 main_weights))
   \<and> 2 \<le> population_size (example_harmonizer two_bars 2 main_weights)
   \<and> chords (example_harmonizer two_bars 2 main_weights) \<noteq> []
   \<and> select_parents ((example_harmonizer two_bars 2 main_weights)
        \<lparr>population := [Cmaj7_4, Cmaj7_4]\<rparr>) (rng0 8) = Inr ([Cmaj7_4, Cmaj7_4], rng0 10)
   \<and> length [Cmaj7_4, Cmaj7_4] = nat (population_size (example_harmonizer two_bars 2 main_weights))
   \<and> 2 \<le> length Cmaj7_4
   \<and> (\<exists>np g2. create_new_population ((example_harmonizer two_bars 2 main_weights)
         \<lparr>population := [Cmaj7_4, Cmaj7_4]\<rparr>) [Cmaj7_4, Cmaj7_4] (rng0 8) = Inr (np, g2)
         \<and> length np = 2)
   \<and> generation_step ((example_harmonizer two_bars 2 main_weights)
        \<lparr>population := [Cmaj7_4, Cmaj7_4]\<rparr>, rng0 8) 0
      = Inr ((example_harmonizer two_bars 2 main_weights)\<lparr>population := [Cmaj7_4, Cmaj7_4]\<rparr>,
             rng0 18)
   \<and> length (population ((example_harmonizer two_bars 2 main_weights)
        \<lparr>population := [Cmaj7_4, Cmaj7_4]\<rparr>)) = 2"
proof -
  let ?h = "(example_harmonizer two_bars 2 main_weights)\<lparr>population := [Cmaj7_4, Cmaj7_4]\<rparr>"
  have a: "even (population_size ?h)" "2 \<le> population_size ?h" "chords ?h \<noteq> []"
    by simp_all
  have s: "select_parents ?h (rng0 8) = Inr ([Cmaj7_4, Cmaj7_4], rng0 10)"
    using select_parents_two_bars_2 [of 8] by simp
  have t: "generation_step (?h, rng0 8) 0 = Inr (?h, rng0 18)"
    using generation_step_two_bars_2 [of 8 0] by simp
  have l: "\<forall>x\<in>set [Cmaj7_4, Cmaj7_4]. 2 \<le> length x" by (simp add: Cmaj7_4_def)
  from generation_step_population_size [OF a, of "rng0 8" 0]
  have c: "\<exists>np g2. create_new_population ?h [Cmaj7_4, Cmaj7_4] (rng0 8) = Inr (np, g2)
                 \<and> length np = nat (population_size ?h)"
    and d: "length (population ?h) = nat (population_size ?h)"
    using l t by auto
  show ?thesis using a s t l c d by simp
qed


section \<open>Length of the chord sequences (C1)\<close>






section \<open>Odd population size (C4)\<close>

lemma initialise_population_total:
  assumes "chords h \<noteq> []"
  shows "\<exists>pop g'. initialise_population h g = Inr (pop, g')"
proof -
  have "\<exists>x b. random_choice (chords h) a = Inr (x, b)" for a
    using random_choice_Inr [OF assms, of a] by blast
  then have "\<exists>x b. generate_random_chord_sequence h a = Inr (x, b)" for a
    unfolding generate_random_chord_sequence_def by (rule repeat_collect_total)
  then show ?thesis unfolding initialise_population_def by (rule repeat_collect_total)
qed

lemma generate_raises_in_first_generation:
  assumes "initialise_population h g = Inr (pop, g1)" and "1 \<le> generations"
    and "raises (generation_step (h\<lparr>population := pop\<rparr>, g1) 0)"
  shows "raises (generate h generations g)"
proof -
  have "py_range generations = 0 # [1 ..< nat generations]"
    using assms(2) by (simp add: py_range_def upt_rec)
  then have "raises (for_loop generation_step (py_range generations) (h\<lparr>population := pop\<rparr>, g1))"
    using for_loop_raises_first [of generation_step "(h\<lparr>population := pop\<rparr>, g1)" 0] assms(3)
    by simp
  then show ?thesis by (simp add: generate_def assms(1) raises_py_bind)
qed

lemma first_generation_odd:
  assumes "odd (population_size h)" and "1 \<le> population_size h"
    and "1 \<le> number_of_bars (melody_data h)" and "chords h \<noteq> []"
    and "initialise_population h g = Inr (pop, g1)"
    and "select_parents (h\<lparr>population := pop\<rparr>) g1 = Inr (parents, g2)"
  shows "create_new_population (h\<lparr>population := pop\<rparr>) parents g2 = Inl IndexError"
proof (rule create_new_population_odd)
  let ?h = "h\<lparr>population := pop\<rparr>"
  show "odd (population_size ?h)" "0 \<le> population_size ?h" "chords ?h \<noteq> []"
    using assms(1,2,4) by simp_all
  from select_parents_Inr [OF assms(6)]
  have l: "length parents = nat (population_size ?h)" and s: "set parents \<subseteq> set pop"
    by simp_all
  show "length parents = nat (population_size ?h)" by (rule l)
  from initialise_population_Inr [OF assms(5)]
  have "\<forall>x\<in>set pop. length x = nat (2 * number_of_bars (melody_data h))" by simp
  then show "\<forall>x\<in>set parents. 2 \<le> length x" using s assms(3) by auto
qed

lemma create_new_population_three:
  "create_new_population ((example_harmonizer two_bars 3 w)\<lparr>population := p\<rparr>)
     [Cmaj7_4, Cmaj7_4, Cmaj7_4] g = Inl IndexError"
  by (rule create_new_population_odd) (simp_all add: Cmaj7_4_def)

text \<open>
  Claim C4, as stated: an odd population size is refused at construction or at the start
  of the run with a configuration error, and no generation executes. Neither \<open>__init__\<close>
  nor \<open>generate\<close> looks at the parity of \<open>population_size\<close>. With \<open>population_size = 3\<close> the
  harmonizer is constructed and the initial population of three sequences is built; a run
  of 0 generations returns a chord sequence; in a run of 1 generation the parents of the
  first generation are selected and the run ends in the \<open>IndexError\<close> of \<open>parents[3]\<close>.
\<close>

theorem odd_population_size_not_refused:
  "population_size (example_harmonizer two_bars 3 main_weights) = 3
   \<and> initialise_population (example_harmonizer two_bars 3 main_weights) (rng0 0)
       = Inr ([Cmaj7_4, Cmaj7_4, Cmaj7_4], rng0 12)
   \<and> generate (example_harmonizer two_bars 3 main_weights) 0 (rng0 0) = Inr Cmaj7_4
   \<and> select_parents ((example_harmonizer two_bars 3 main_weights)
        \<lparr>population := [Cmaj7_4, Cmaj7_4, Cmaj7_4]\<rparr>) (rng0 12)
       = Inr ([Cmaj7_4, Cmaj7_4, Cmaj7_4], rng0 15)
   \<and> generate (example_harmonizer two_bars 3 main_weights) 1 (rng0 0) = Inl IndexError"
proof (intro conjI)
  show "population_size (example_harmonizer two_bars 3 main_weights) = 3" by simp
  show "initialise_population (example_harmonizer two_bars 3 main_weights) (rng0 0)
       = Inr ([Cmaj7_4, Cmaj7_4, Cmaj7_4], rng0 12)"
    using initial_population_two_bars_3 [of main_weights 0] by simp
  show "generate (example_harmonizer two_bars 3 main_weights) 0 (rng0 0) = Inr Cmaj7_4"
    by (simp add: generate_def initial_population_two_bars_3 py_range_def best_Cmaj7_4)
  show "select_parents ((example_harmonizer two_bars 3 main_weights)
        \<lparr>population := [Cmaj7_4, Cmaj7_4, Cmaj7_4]\<rparr>) (rng0 12)
       = Inr ([Cmaj7_4, Cmaj7_4, Cmaj7_4], rng0 15)"
    using select_parents_two_bars_3 [of 12] by simp
  show "generate (example_harmonizer two_bars 3 main_weights) 1 (rng0 0) = Inl IndexError"
    by (simp add: generate_def initial_population_two_bars_3 py_range_def generation_step_def
          select_parents_two_bars_3 create_new_population_three)
qed

text \<open>
  Claim C4, amended: an odd population size is not checked at construction or at the
  start. For an odd \<open>population_size \<ge> 1\<close>, a melody of at least one bar, a non-empty
  chord vocabulary and at least one generation, the initial population of
  \<open>population_size\<close> sequences is built; if the selection of the first generation returns,
  \<open>_create_new_population\<close> raises \<open>IndexError\<close> at \<open>parents[population_size]\<close>; in
  every case \<open>generate\<close> raises within the first generation and returns no chord sequence.
\<close>

theorem odd_population_size_fails_in_first_generation:
  assumes "odd (population_size h)" and "1 \<le> population_size h"
    and "1 \<le> number_of_bars (melody_data h)" and "chords h \<noteq> []" and "1 \<le> generations"
  shows "(\<exists>pop g1. initialise_population h g = Inr (pop, g1)
            \<and> length pop = nat (population_size h))
       \<and> (\<forall>pop g1 parents g2. initialise_population h g = Inr (pop, g1)
            \<and> select_parents (h\<lparr>population := pop\<rparr>) g1 = Inr (parents, g2) \<longrightarrow>
            create_new_population (h\<lparr>population := pop\<rparr>) parents g2 = Inl IndexError)
       \<and> raises (generate h generations g)"
proof (intro conjI allI impI)
  from initialise_population_total [OF assms(4), of g] obtain pop g1
    where i: "initialise_population h g = Inr (pop, g1)" by blast
  from initialise_population_Inr [OF i]
  show "\<exists>pop g1. initialise_population h g = Inr (pop, g1) \<and> length pop = nat (population_size h)"
    using i by blast
  have "raises (generation_step (h\<lparr>population := pop\<rparr>, g1) 0)"
  proof (cases "select_parents (h\<lparr>population := pop\<rparr>) g1")
    case (Inl e)
    then show ?thesis by (simp add: generation_step_def)
  next
    case (Inr r)
    obtain parents g2 where r: "r = (parents, g2)" by (cases r)
    from first_generation_odd [OF assms(1-4) i Inr [unfolded r]]
    show ?thesis by (simp add: generation_step_def Inr r)
  qed
  from generate_raises_in_first_generation [OF i assms(5) this]
  show "raises (generate h generations g)" .
next
  fix pop g1 parents g2
  assume "initialise_population h g = Inr (pop, g1)
          \<and> select_parents (h\<lparr>population := pop\<rparr>) g1 = Inr (parents, g2)"
  then show "create_new_population (h\<lparr>population := pop\<rparr>) parents g2 = Inl IndexError"
    using first_generation_odd [OF assms(1-4)] by blast
qed

theorem odd_population_size_fails_in_first_generation_witness:
  "odd (population_size (example_harmonizer two_bars 3 main_weights))
   \<and> 1 \<le> population_size (example_harmonizer two_bars 3 main_weights)
   \<and> 1 \<le> number_of_bars (melody_data (example_harmonizer two_bars 3 main_weights))
   \<and> chords (example_harmonizer two_bars 3 main_weights) \<noteq> []
   \<and> (1::int) \<le> 2
   \<and> initialise_population (example_harmonizer two_bars 3 main_weights) (rng0 1)
       = Inr ([Cmaj7_4, Cmaj7_4, Cmaj7_4], rng0 13)
   \<and> select_parents ((example_harmonizer two_bars 3 main_weights)
        \<lparr>population := [Cmaj7_4, Cmaj7_4, Cmaj7_4]\<rparr>) (rng0 13)
       = Inr ([Cmaj7_4, Cmaj7_4, Cmaj7_4], rng0 16)
   \<and> create_new_population ((example_harmonizer two_bars 3 main_weights)
        \<lparr>population := [Cmaj7_4, Cmaj7_4, Cmaj7_4]\<rparr>) [Cmaj7_4, Cmaj7_4, Cmaj7_4] (rng0 16)
       = Inl IndexError
   \<and> raises (generate (example_harmonizer two_bars 3 main_weights) 2 (rng0 1))"
proof -
  let ?h = "example_harmonizer two_bars 3 main_weights"
  have a: "odd (population_size ?h)" "1 \<le> population_size ?h"
    "1 \<le> number_of_bars (melody_data ?h)" "chords ?h \<noteq> []" "(1::int) \<le> 2"
    by simp_all
  have i: "initialise_population ?h (rng0 1) = Inr ([Cmaj7_4, Cmaj7_4, Cmaj7_4], rng0 13)"
    using initial_population_two_bars_3 [of main_weights 1] by simp
  have s: "select_parents (?h\<lparr>population := [Cmaj7_4, Cmaj7_4, Cmaj7_4]\<rparr>) (rng0 13)
           = Inr ([Cmaj7_4, Cmaj7_4, Cmaj7_4], rng0 16)"
    using select_parents_two_bars_3 [of 13] by simp
  note t = odd_population_size_fails_in_first_generation [OF a, of "rng0 1"]
  have c: "create_new_population (?h\<lparr>population := [Cmaj7_4, Cmaj7_4, Cmaj7_4]\<rparr>)
             [Cmaj7_4, Cmaj7_4, Cmaj7_4] (rng0 16) = Inl IndexError"
    using t i s by blast
  have r: "raises (generate ?h 2 (rng0 1))" using t by blast
  show ?thesis using a i s c r by simp
qed


section \<open>A melody of one bar (C2)\<close>

lemma map_result_raises_first: "raises (f x) \<Longrightarrow> raises (map_result f (x # xs))"
  by (cases "f x") simp_all

lemma select_parents_length_2:
  assumes "\<forall>x\<in>set (population h). length x = 2"
  shows "raises (select_parents h g)"
proof (cases "population h")
  case Nil
  then show ?thesis
    by (simp add: select_parents_def random_choices_def accumulate_def list_getitem_def)
next
  case (Cons x rest)
  then have "length x = 2" using assms by simp
  then have "raises (evaluate (fitness_evaluator h) x)" by (rule evaluate_length_2)
  then have "raises (map_result (evaluate (fitness_evaluator h)) (population h))"
    unfolding Cons by (rule map_result_raises_first)
  then show ?thesis unfolding select_parents_def by (rule raises_py_bind)
qed

lemma best_length_2:
  assumes "\<forall>x\<in>set pop. length x = 2"
  shows "raises (get_chord_sequence_with_highest_fitness ev pop)"
proof (cases pop)
  case Nil
  then show ?thesis by (simp add: get_chord_sequence_with_highest_fitness_def py_max_def)
next
  case (Cons x rest)
  then have "length x = 2" using assms by simp
  then have "raises (evaluate ev x)" by (rule evaluate_length_2)
  then show ?thesis
    by (simp add: get_chord_sequence_with_highest_fitness_def py_max_def Cons raises_py_bind)
qed

text \<open>
  Claim C2, as stated: for a melody of four quarter notes (one bar) \<open>generate\<close> completes
  and returns a sequence of two chords. The sequences of the population have two chords,
  and the first fitness evaluation of such a sequence divides by \<open>length - 2 = 0\<close> in
  \<open>ChordRepetitions\<close>: the run on the one-bar melody raises \<open>ZeroDivisionError\<close>.
\<close>

theorem one_bar_run_raises:
  "number_of_bars one_bar = 1
   \<and> melody_notes one_bar = [(''C5'', 1), (''C5'', 1), (''G5'', 1), (''G5'', 1)]
   \<and> generate (example_harmonizer one_bar 2 main_weights) 1 (rng0 0) = Inl ZeroDivisionError"
proof -
  have "select_parents ((example_harmonizer one_bar 2 main_weights)
          \<lparr>population := [Cmaj7_2, Cmaj7_2]\<rparr>) g = Inl ZeroDivisionError" for g
    by (simp add: select_parents_def evaluate_Cmaj7_2)
  then have "generate (example_harmonizer one_bar 2 main_weights) 1 (rng0 0)
             = Inl ZeroDivisionError"
    by (simp add: generate_def initial_population_one_bar_2 py_range_def generation_step_def)
  then show ?thesis by simp
qed

text \<open>
  Claim C2, amended: for a melody of one bar every chord sequence of the search has two
  chords, on which the fitness evaluation raises, so \<open>generate\<close> returns no chord
  sequence: for every harmonizer, number of generations and generator state the run
  raises.
\<close>

theorem one_bar_generate_raises:
  assumes "number_of_bars (melody_data h) = 1"
  shows "raises (generate h generations g)"
proof (cases "initialise_population h g")
  case (Inl e)
  then show ?thesis by (simp add: generate_def)
next
  case (Inr r)
  obtain pop g1 where r: "r = (pop, g1)" by (cases r)
  have i: "initialise_population h g = Inr (pop, g1)" using Inr r by simp
  from initialise_population_Inr [OF i] assms
  have l: "\<forall>x\<in>set pop. length x = 2" by simp
  let ?h = "h\<lparr>population := pop\<rparr>"
  show ?thesis
  proof (cases "1 \<le> generations")
    case True
    have "raises (select_parents ?h g1)" using l by (intro select_parents_length_2) simp
    then have "raises (generation_step (?h, g1) 0)"
      by (simp add: generation_step_def raises_py_bind)
    from generate_raises_in_first_generation [OF i True this] show ?thesis .
  next
    case False
    then have "py_range generations = []" by (simp add: py_range_def)
    then show ?thesis using best_length_2 [OF l] by (simp add: generate_def i)
  qed
qed

theorem one_bar_generate_raises_witness:
  "number_of_bars (melody_data (example_harmonizer one_bar 4 main_weights)) = 1
   \<and> raises (generate (example_harmonizer one_bar 4 main_weights) 3 (rng0 0))"
  using one_bar_generate_raises [of "example_harmonizer one_bar 4 main_weights" 3 "rng0 0"]
  by simp

end
